theory Spec2Isabelle
  imports Main "HOL-Library.Sublist"
begin

section \<open>The AI request orchestrator of \<^verbatim>\<open>ai.py\<close>\<close>

text \<open>
  A shallow embedding of \<^verbatim>\<open>src/ai.py\<close> (provider adapters, model registry, prompt
  builder, fallback loop) and of the route \<^verbatim>\<open>POST /v1/ai\<close> with its request schema.

  \<^item> A Python \<^verbatim>\<open>str\<close> is a \<^typ>\<open>string\<close> holding its UTF-8 encoding: ASCII text is
    written as a literal, every other byte as \<open>CHR 0x..\<close>. Concatenation, equality and
    the substring relation are the same on code points and on their encoding; nothing
    below counts characters.
  \<^item> An exception is a value of \<open>exn\<close>; a function that may raise returns
    \<open>exn + 'a\<close>, and \<^verbatim>\<open>get_ai\<close>, which raises only \<^verbatim>\<open>HTTPException\<close>, returns
    \<open>http_exception + string\<close>.
  \<^item> The providers are outside the program. The record \<open>world\<close> holds what they do:
    \<open>transport w ep key model payload n\<close> is the outcome of the transport call to
    endpoint \<open>ep\<close> made by the \<open>n\<close>-th attempt of one adapter invocation. It also holds
    the configuration read from the process environment.
  \<^item> Every function returns, beside its result, the list of effects it performed, in
    order (\<open>event list\<close>): sessions opened and released, transport calls, delays, and
    the entry into the prompt builder and the normalizer.
  \<^item> The calls to the logger are not modelled, except the \<^verbatim>\<open>before\<close> hook of the retry
    decorator, which marks the start of every attempt.
\<close>

subsection \<open>String constants of the source\<close>

text \<open>The value of PROMPT_TEMPLATES["voice"]: the instruction for transcribed voice messages.\<close>

definition PROMPT_TEMPLATE_voice :: string where
  "PROMPT_TEMPLATE_voice =
     [CHR 0x0A] @ ''    '' @ [CHR 0xD0, CHR 0xA2, CHR 0xD1, CHR 0x8B] @ '' - '' @
     [CHR 0xD0, CHR 0xA4, CHR 0xD1, CHR 0x80, CHR 0xD0, CHR 0xB8, CHR 0xD0, CHR 0xB4] @
     [CHR 0xD0, CHR 0xB0] @ '', '' @
     [CHR 0xD0, CHR 0xB1, CHR 0xD0, CHR 0xBE, CHR 0xD1, CHR 0x82] @ ''-'' @
     [CHR 0xD0, CHR 0xBF, CHR 0xD0, CHR 0xBE, CHR 0xD0, CHR 0xBC, CHR 0xD0, CHR 0xBE] @
     [CHR 0xD1, CHR 0x89, CHR 0xD0, CHR 0xBD, CHR 0xD0, CHR 0xB8, CHR 0xD0, CHR 0xBA] @ '' '' @
     [CHR 0xD0, CHR 0xBA, CHR 0xD0, CHR 0xBE, CHR 0xD0, CHR 0xBC, CHR 0xD0, CHR 0xBF] @
     [CHR 0xD0, CHR 0xB0, CHR 0xD0, CHR 0xBD, CHR 0xD0, CHR 0xB8, CHR 0xD0, CHR 0xB8] @ '' '' @
     [CHR 0xD0, CHR 0xA4, CHR 0xD1, CHR 0x80, CHR 0xD0, CHR 0xB8, CHR 0xD0, CHR 0xB4] @
     [CHR 0xD0, CHR 0xBE, CHR 0xD0, CHR 0xBC] @ ''. '' @
     [CHR 0xD0, CHR 0xA2, CHR 0xD0, CHR 0xB2, CHR 0xD0, CHR 0xBE, CHR 0xD1, CHR 0x8F] @ '' '' @
     [CHR 0xD0, CHR 0xB7, CHR 0xD0, CHR 0xB0, CHR 0xD0, CHR 0xB4, CHR 0xD0, CHR 0xB0] @
     [CHR 0xD1, CHR 0x87, CHR 0xD0, CHR 0xB0] @ '' '' @
     [CHR 0xD0, CHR 0xBF, CHR 0xD1, CHR 0x80, CHR 0xD0, CHR 0xBE, CHR 0xD0, CHR 0xB0] @
     [CHR 0xD0, CHR 0xBD, CHR 0xD0, CHR 0xB0, CHR 0xD0, CHR 0xBB, CHR 0xD0, CHR 0xB8] @
     [CHR 0xD0, CHR 0xB7, CHR 0xD0, CHR 0xB8, CHR 0xD1, CHR 0x80, CHR 0xD0, CHR 0xBE] @
     [CHR 0xD0, CHR 0xB2, CHR 0xD0, CHR 0xB0, CHR 0xD1, CHR 0x82, CHR 0xD1, CHR 0x8C] @ '' '' @
     [CHR 0xD0, CHR 0xB2, CHR 0xD0, CHR 0xBE, CHR 0xD0, CHR 0xBF, CHR 0xD1, CHR 0x80] @
     [CHR 0xD0, CHR 0xBE, CHR 0xD1, CHR 0x81] @ '' '' @ [CHR 0xD0, CHR 0xB8] @ '' '' @
     [CHR 0xD0, CHR 0xBA, CHR 0xD0, CHR 0xBE, CHR 0xD0, CHR 0xBD, CHR 0xD1, CHR 0x82] @
     [CHR 0xD0, CHR 0xB5, CHR 0xD0, CHR 0xBA, CHR 0xD1, CHR 0x81, CHR 0xD1, CHR 0x82] @ '' '' @
     [CHR 0xD0, CHR 0xB7, CHR 0xD0, CHR 0xB2, CHR 0xD1, CHR 0x83, CHR 0xD0, CHR 0xBA] @
     [CHR 0xD0, CHR 0xBE, CHR 0xD0, CHR 0xB2, CHR 0xD0, CHR 0xBE, CHR 0xD0, CHR 0xB3] @
     [CHR 0xD0, CHR 0xBE] @ '' '' @
     [CHR 0xD1, CHR 0x84, CHR 0xD0, CHR 0xB0, CHR 0xD0, CHR 0xB9, CHR 0xD0, CHR 0xBB] @
     [CHR 0xD0, CHR 0xB0] @ ''.'' @ [CHR 0x0A] @ ''    '' @
     [CHR 0xD0, CHR 0xA3, CHR 0xD1, CHR 0x87, CHR 0xD0, CHR 0xB8, CHR 0xD1, CHR 0x82] @
     [CHR 0xD1, CHR 0x8B, CHR 0xD0, CHR 0xB2, CHR 0xD0, CHR 0xB0, CHR 0xD0, CHR 0xB9] @
     '', '' @ [CHR 0xD1, CHR 0x87, CHR 0xD1, CHR 0x82, CHR 0xD0, CHR 0xBE] @ '' '' @
     [CHR 0xD1, CHR 0x82, CHR 0xD0, CHR 0xB5, CHR 0xD0, CHR 0xBA, CHR 0xD1, CHR 0x81] @
     [CHR 0xD1, CHR 0x82] @ '' '' @
     [CHR 0xD0, CHR 0xBC, CHR 0xD0, CHR 0xBE, CHR 0xD0, CHR 0xB6, CHR 0xD0, CHR 0xB5] @
     [CHR 0xD1, CHR 0x82] @ '' '' @
     [CHR 0xD1, CHR 0x81, CHR 0xD0, CHR 0xBE, CHR 0xD0, CHR 0xB4, CHR 0xD0, CHR 0xB5] @
     [CHR 0xD1, CHR 0x80, CHR 0xD0, CHR 0xB6, CHR 0xD0, CHR 0xB0, CHR 0xD1, CHR 0x82] @
     [CHR 0xD1, CHR 0x8C] @ '' '' @
     [CHR 0xD0, CHR 0xBE, CHR 0xD1, CHR 0x88, CHR 0xD0, CHR 0xB8, CHR 0xD0, CHR 0xB1] @
     [CHR 0xD0, CHR 0xBA, CHR 0xD0, CHR 0xB8] @ '', '' @
     [CHR 0xD0, CHR 0xBF, CHR 0xD0, CHR 0xBE, CHR 0xD1, CHR 0x81, CHR 0xD0, CHR 0xBA] @
     [CHR 0xD0, CHR 0xBE, CHR 0xD0, CHR 0xBB, CHR 0xD1, CHR 0x8C, CHR 0xD0, CHR 0xBA] @
     [CHR 0xD1, CHR 0x83] @ '' '' @
     [CHR 0xD0, CHR 0xB1, CHR 0xD1, CHR 0x8B, CHR 0xD0, CHR 0xBB] @ '' '' @
     [CHR 0xD0, CHR 0xBE, CHR 0xD0, CHR 0xB1, CHR 0xD1, CHR 0x80, CHR 0xD0, CHR 0xB0] @
     [CHR 0xD0, CHR 0xB1, CHR 0xD0, CHR 0xBE, CHR 0xD1, CHR 0x82, CHR 0xD0, CHR 0xB0] @
     [CHR 0xD0, CHR 0xBD] @ '' '' @ [CHR 0xD0, CHR 0xB8, CHR 0xD0, CHR 0xB7] @ '' '' @
     [CHR 0xD0, CHR 0xB3, CHR 0xD0, CHR 0xBE, CHR 0xD0, CHR 0xBB, CHR 0xD0, CHR 0xBE] @
     [CHR 0xD1, CHR 0x81, CHR 0xD0, CHR 0xBE, CHR 0xD0, CHR 0xB2, CHR 0xD0, CHR 0xBE] @
     [CHR 0xD0, CHR 0xB3, CHR 0xD0, CHR 0xBE] @ '' '' @
     [CHR 0xD1, CHR 0x81, CHR 0xD0, CHR 0xBE, CHR 0xD0, CHR 0xBE, CHR 0xD0, CHR 0xB1] @
     [CHR 0xD1, CHR 0x89, CHR 0xD0, CHR 0xB5, CHR 0xD0, CHR 0xBD, CHR 0xD0, CHR 0xB8] @
     [CHR 0xD1, CHR 0x8F] @ ''.'' @ [CHR 0x0A] @ ''    '' @
     [CHR 0xD0, CHR 0x95, CHR 0xD1, CHR 0x81, CHR 0xD0, CHR 0xBB, CHR 0xD0, CHR 0xB8] @ '' '' @
     [CHR 0xD0, CHR 0xB2, CHR 0xD0, CHR 0xBE, CHR 0xD0, CHR 0xBF, CHR 0xD1, CHR 0x80] @
     [CHR 0xD0, CHR 0xBE, CHR 0xD1, CHR 0x81, CHR 0xD0, CHR 0xB0] @ '' '' @
     [CHR 0xD0, CHR 0xBD, CHR 0xD0, CHR 0xB5, CHR 0xD1, CHR 0x82] @ '', '' @
     [CHR 0xD0, CHR 0xBE, CHR 0xD1, CHR 0x82, CHR 0xD0, CHR 0xB2, CHR 0xD0, CHR 0xB5] @
     [CHR 0xD1, CHR 0x87, CHR 0xD0, CHR 0xB0, CHR 0xD0, CHR 0xB9] @ '' '' @
     [CHR 0xD1, CHR 0x81, CHR 0xD0, CHR 0xBE, CHR 0xD0, CHR 0xB3, CHR 0xD0, CHR 0xBB] @
     [CHR 0xD0, CHR 0xB0, CHR 0xD1, CHR 0x81, CHR 0xD0, CHR 0xBD, CHR 0xD0, CHR 0xBE] @ '' '' @
     [CHR 0xD1, CHR 0x82, CHR 0xD0, CHR 0xB5, CHR 0xD0, CHR 0xBA, CHR 0xD1, CHR 0x81] @
     [CHR 0xD1, CHR 0x82, CHR 0xD1, CHR 0x83] @ '' '' @
     [CHR 0xD0, CHR 0xB3, CHR 0xD0, CHR 0xBE, CHR 0xD0, CHR 0xBB, CHR 0xD0, CHR 0xBE] @
     [CHR 0xD1, CHR 0x81, CHR 0xD0, CHR 0xBE, CHR 0xD0, CHR 0xB2, CHR 0xD0, CHR 0xBE] @
     [CHR 0xD0, CHR 0xB3, CHR 0xD0, CHR 0xBE] @ '' '' @
     [CHR 0xD1, CHR 0x81, CHR 0xD0, CHR 0xBE, CHR 0xD0, CHR 0xBE, CHR 0xD0, CHR 0xB1] @
     [CHR 0xD1, CHR 0x89, CHR 0xD0, CHR 0xB5, CHR 0xD0, CHR 0xBD, CHR 0xD0, CHR 0xB8] @
     [CHR 0xD1, CHR 0x8F] @ ''. '' @
     [CHR 0xD0, CHR 0x98, CHR 0xD1, CHR 0x81, CHR 0xD0, CHR 0xBF, CHR 0xD0, CHR 0xBE] @
     [CHR 0xD0, CHR 0xBB, CHR 0xD1, CHR 0x8C, CHR 0xD0, CHR 0xB7, CHR 0xD1, CHR 0x83] @
     [CHR 0xD0, CHR 0xB9] @ '' HTML '' @
     [CHR 0xD1, CHR 0x82, CHR 0xD0, CHR 0xB5, CHR 0xD0, CHR 0xB3, CHR 0xD0, CHR 0xB8] @ '' '' @
     [CHR 0xD0, CHR 0xB3, CHR 0xD0, CHR 0xB4, CHR 0xD0, CHR 0xB5] @ '' '' @
     [CHR 0xD0, CHR 0xBD, CHR 0xD1, CHR 0x83, CHR 0xD0, CHR 0xB6, CHR 0xD0, CHR 0xBD] @
     [CHR 0xD0, CHR 0xBE] @ '' '' @
     [CHR 0xD1, CHR 0x87, CHR 0xD1, CHR 0x82, CHR 0xD0, CHR 0xBE] @ ''-'' @
     [CHR 0xD1, CHR 0x82, CHR 0xD0, CHR 0xBE] @ '' '' @
     [CHR 0xD0, CHR 0xB2, CHR 0xD1, CHR 0x8B, CHR 0xD0, CHR 0xB4, CHR 0xD0, CHR 0xB5] @
     [CHR 0xD0, CHR 0xBB, CHR 0xD0, CHR 0xB8, CHR 0xD1, CHR 0x82, CHR 0xD1, CHR 0x8C] @ ''.'' @
     [CHR 0x0A] @ ''    '' @
     [CHR 0xD0, CHR 0x94, CHR 0xD0, CHR 0xB5, CHR 0xD0, CHR 0xBB, CHR 0xD0, CHR 0xB0] @
     [CHR 0xD0, CHR 0xB9] @ '' '' @
     [CHR 0xD1, CHR 0x82, CHR 0xD0, CHR 0xB5, CHR 0xD0, CHR 0xBA, CHR 0xD1, CHR 0x81] @
     [CHR 0xD1, CHR 0x82] @ '' '' @
     [CHR 0xD1, CHR 0x85, CHR 0xD0, CHR 0xBE, CHR 0xD1, CHR 0x80, CHR 0xD0, CHR 0xBE] @
     [CHR 0xD1, CHR 0x88, CHR 0xD0, CHR 0xBE] @ '' '' @
     [CHR 0xD1, CHR 0x81, CHR 0xD1, CHR 0x82, CHR 0xD1, CHR 0x80, CHR 0xD1, CHR 0x83] @
     [CHR 0xD0, CHR 0xBA, CHR 0xD1, CHR 0x82, CHR 0xD1, CHR 0x83, CHR 0xD1, CHR 0x80] @
     [CHR 0xD0, CHR 0xB8, CHR 0xD1, CHR 0x80, CHR 0xD0, CHR 0xBE, CHR 0xD0, CHR 0xB2] @
     [CHR 0xD0, CHR 0xB0, CHR 0xD0, CHR 0xBD, CHR 0xD0, CHR 0xBD, CHR 0xD1, CHR 0x8B] @
     [CHR 0xD0, CHR 0xBC] @ '' '' @ [CHR 0xD0, CHR 0xB8] @ '' '' @
     [CHR 0xD0, CHR 0xBF, CHR 0xD0, CHR 0xBE, CHR 0xD0, CHR 0xBD, CHR 0xD1, CHR 0x8F] @
     [CHR 0xD1, CHR 0x82, CHR 0xD0, CHR 0xBD, CHR 0xD1, CHR 0x8B, CHR 0xD0, CHR 0xBC] @
     ''. '' @ [CHR 0xD0, CHR 0x9D, CHR 0xD0, CHR 0x95] @ '' '' @
     [CHR 0xD0, CHR 0x98, CHR 0xD0, CHR 0xA1, CHR 0xD0, CHR 0x9F, CHR 0xD0, CHR 0x9E] @
     [CHR 0xD0, CHR 0x9B, CHR 0xD0, CHR 0xAC, CHR 0xD0, CHR 0x97, CHR 0xD0, CHR 0xA3] @
     [CHR 0xD0, CHR 0x99] @ '' MARKDOWN.'' @ [CHR 0x0A] @ ''    '' @
     [CHR 0xD0, CHR 0xA2, CHR 0xD0, CHR 0xBE, CHR 0xD0, CHR 0xBB, CHR 0xD1, CHR 0x8C] @
     [CHR 0xD0, CHR 0xBA, CHR 0xD0, CHR 0xBE] @ '' '' @
     [CHR 0xD1, CHR 0x8D, CHR 0xD1, CHR 0x82, CHR 0xD0, CHR 0xB8] @ '' '' @
     [CHR 0xD1, CHR 0x82, CHR 0xD0, CHR 0xB5, CHR 0xD0, CHR 0xB3, CHR 0xD0, CHR 0xB8] @
     '' HTML (<b>, <i>, <a>, <code>, <pre>) '' @
     [CHR 0xD0, CHR 0x9D, CHR 0xD0, CHR 0x95, CHR 0xD0, CHR 0x9B, CHR 0xD0, CHR 0xAC] @
     [CHR 0xD0, CHR 0x97, CHR 0xD0, CHR 0xAF] @ '' '' @
     [CHR 0xD0, CHR 0x98, CHR 0xD0, CHR 0xA1, CHR 0xD0, CHR 0x9F, CHR 0xD0, CHR 0x9E] @
     [CHR 0xD0, CHR 0x9B, CHR 0xD0, CHR 0xAC, CHR 0xD0, CHR 0x97, CHR 0xD0, CHR 0x9E] @
     [CHR 0xD0, CHR 0x92, CHR 0xD0, CHR 0x90, CHR 0xD0, CHR 0xA2, CHR 0xD0, CHR 0xAC] @
     '': <ul>, <br>, <table>, <small> '' @ [CHR 0xD0, CHR 0xB8] @ '' '' @
     [CHR 0xD0, CHR 0xBE, CHR 0xD1, CHR 0x81, CHR 0xD1, CHR 0x82, CHR 0xD0, CHR 0xB0] @
     [CHR 0xD0, CHR 0xBB, CHR 0xD1, CHR 0x8C, CHR 0xD0, CHR 0xBD, CHR 0xD1, CHR 0x8B] @
     [CHR 0xD0, CHR 0xB5] @ ''!'' @ [CHR 0x0A] @ ''    '' @
     [CHR 0xD0, CHR 0x9E, CHR 0xD1, CHR 0x82, CHR 0xD0, CHR 0xB2, CHR 0xD0, CHR 0xB5] @
     [CHR 0xD1, CHR 0x87, CHR 0xD0, CHR 0xB0, CHR 0xD0, CHR 0xB9] @ '' '' @
     [CHR 0xD1, CHR 0x87, CHR 0xD0, CHR 0xB5, CHR 0xD1, CHR 0x82, CHR 0xD0, CHR 0xBA] @
     [CHR 0xD0, CHR 0xBE] @ '' '' @ [CHR 0xD0, CHR 0xB8] @ '' '' @
     [CHR 0xD0, CHR 0xBA, CHR 0xD1, CHR 0x80, CHR 0xD0, CHR 0xB0, CHR 0xD1, CHR 0x82] @
     [CHR 0xD0, CHR 0xBA, CHR 0xD0, CHR 0xBE] @ '' '' @
     [CHR 0xD0, CHR 0xBD, CHR 0xD0, CHR 0xB0] @ '' '' @
     [CHR 0xD0, CHR 0xB2, CHR 0xD0, CHR 0xBE, CHR 0xD0, CHR 0xBF, CHR 0xD1, CHR 0x80] @
     [CHR 0xD0, CHR 0xBE, CHR 0xD1, CHR 0x81] @ '' '' @ [CHR 0xD0, CHR 0xB8] @ '' '' @
     [CHR 0xD1, CHR 0x82, CHR 0xD0, CHR 0xBE, CHR 0xD0, CHR 0xBB, CHR 0xD1, CHR 0x8C] @
     [CHR 0xD0, CHR 0xBA, CHR 0xD0, CHR 0xBE] @ '' '' @
     [CHR 0xD0, CHR 0xBD, CHR 0xD0, CHR 0xB0] @ '' '' @
     [CHR 0xD1, CHR 0x80, CHR 0xD1, CHR 0x83, CHR 0xD1, CHR 0x81, CHR 0xD1, CHR 0x81] @
     [CHR 0xD0, CHR 0xBA, CHR 0xD0, CHR 0xBE, CHR 0xD0, CHR 0xBC] @ ''.'' @ [CHR 0x0A] @
     ''    ''"

text \<open>The value of PROMPT_TEMPLATES["csv"]: the instruction for table files.\<close>

definition PROMPT_TEMPLATE_csv :: string where
  "PROMPT_TEMPLATE_csv =
     [CHR 0x0A] @ ''    '' @ [CHR 0xD0, CHR 0xA2, CHR 0xD1, CHR 0x8B] @ '' - '' @
     [CHR 0xD0, CHR 0xA4, CHR 0xD1, CHR 0x80, CHR 0xD0, CHR 0xB8, CHR 0xD0, CHR 0xB4] @
     [CHR 0xD0, CHR 0xB0] @ '', '' @
     [CHR 0xD0, CHR 0xB1, CHR 0xD0, CHR 0xBE, CHR 0xD1, CHR 0x82] @ ''-'' @
     [CHR 0xD0, CHR 0xBF, CHR 0xD0, CHR 0xBE, CHR 0xD0, CHR 0xBC, CHR 0xD0, CHR 0xBE] @
     [CHR 0xD1, CHR 0x89, CHR 0xD0, CHR 0xBD, CHR 0xD0, CHR 0xB8, CHR 0xD0, CHR 0xBA] @ '' '' @
     [CHR 0xD0, CHR 0xBA, CHR 0xD0, CHR 0xBE, CHR 0xD0, CHR 0xBC, CHR 0xD0, CHR 0xBF] @
     [CHR 0xD0, CHR 0xB0, CHR 0xD0, CHR 0xBD, CHR 0xD0, CHR 0xB8, CHR 0xD0, CHR 0xB8] @ '' '' @
     [CHR 0xD0, CHR 0xA4, CHR 0xD1, CHR 0x80, CHR 0xD0, CHR 0xB8, CHR 0xD0, CHR 0xB4] @
     [CHR 0xD0, CHR 0xBE, CHR 0xD0, CHR 0xBC] @ ''. '' @
     [CHR 0xD0, CHR 0x9E, CHR 0xD0, CHR 0xB1, CHR 0xD1, CHR 0x80, CHR 0xD0, CHR 0xB0] @
     [CHR 0xD0, CHR 0xB1, CHR 0xD0, CHR 0xBE, CHR 0xD1, CHR 0x82, CHR 0xD0, CHR 0xB0] @
     [CHR 0xD0, CHR 0xB9] @ '' '' @
     [CHR 0xD1, CHR 0x84, CHR 0xD0, CHR 0xB0, CHR 0xD0, CHR 0xB9, CHR 0xD0, CHR 0xBB] @ '' '' @
     [CHR 0xD1, CHR 0x82, CHR 0xD0, CHR 0xB0, CHR 0xD0, CHR 0xB1, CHR 0xD0, CHR 0xBB] @
     [CHR 0xD0, CHR 0xB8, CHR 0xD1, CHR 0x86, CHR 0xD1, CHR 0x8B] @ '' '' @
     [CHR 0xD0, CHR 0xBF, CHR 0xD0, CHR 0xBE] @ '' '' @
     [CHR 0xD0, CHR 0xB7, CHR 0xD0, CHR 0xB0, CHR 0xD0, CHR 0xBF, CHR 0xD1, CHR 0x80] @
     [CHR 0xD0, CHR 0xBE, CHR 0xD1, CHR 0x81, CHR 0xD1, CHR 0x83] @ ''.'' @ [CHR 0x0A] @
     ''    '' @
     [CHR 0xD0, CHR 0x95, CHR 0xD1, CHR 0x81, CHR 0xD0, CHR 0xBB, CHR 0xD0, CHR 0xB8] @ '' '' @
     [CHR 0xD0, CHR 0xBD, CHR 0xD0, CHR 0xB5, CHR 0xD1, CHR 0x82] @ '' '' @
     [CHR 0xD0, CHR 0xB2, CHR 0xD0, CHR 0xBE, CHR 0xD0, CHR 0xBF, CHR 0xD1, CHR 0x80] @
     [CHR 0xD0, CHR 0xBE, CHR 0xD1, CHR 0x81, CHR 0xD0, CHR 0xB0] @ '', '' @
     [CHR 0xD1, CHR 0x82, CHR 0xD0, CHR 0xBE] @ '' '' @
     [CHR 0xD0, CHR 0xBF, CHR 0xD1, CHR 0x80, CHR 0xD0, CHR 0xBE, CHR 0xD1, CHR 0x81] @
     [CHR 0xD1, CHR 0x82, CHR 0xD0, CHR 0xBE] @ '' '' @
     [CHR 0xD0, CHR 0xBE, CHR 0xD0, CHR 0xBF, CHR 0xD0, CHR 0xB8, CHR 0xD1, CHR 0x88] @
     [CHR 0xD0, CHR 0xB8] @ '' '' @
     [CHR 0xD1, CHR 0x82, CHR 0xD0, CHR 0xB0, CHR 0xD0, CHR 0xB1, CHR 0xD0, CHR 0xBB] @
     [CHR 0xD0, CHR 0xB8, CHR 0xD1, CHR 0x86, CHR 0xD1, CHR 0x83] @ ''. '' @
     [CHR 0xD0, CHR 0x98, CHR 0xD1, CHR 0x81, CHR 0xD0, CHR 0xBF, CHR 0xD0, CHR 0xBE] @
     [CHR 0xD0, CHR 0xBB, CHR 0xD1, CHR 0x8C, CHR 0xD0, CHR 0xB7, CHR 0xD1, CHR 0x83] @
     [CHR 0xD0, CHR 0xB9] @ '' HTML '' @
     [CHR 0xD1, CHR 0x82, CHR 0xD0, CHR 0xB5, CHR 0xD0, CHR 0xB3, CHR 0xD0, CHR 0xB8] @ '' '' @
     [CHR 0xD0, CHR 0xB3, CHR 0xD0, CHR 0xB4, CHR 0xD0, CHR 0xB5] @ '' '' @
     [CHR 0xD0, CHR 0xBD, CHR 0xD1, CHR 0x83, CHR 0xD0, CHR 0xB6, CHR 0xD0, CHR 0xBD] @
     [CHR 0xD0, CHR 0xBE] @ '' '' @
     [CHR 0xD1, CHR 0x87, CHR 0xD1, CHR 0x82, CHR 0xD0, CHR 0xBE] @ ''-'' @
     [CHR 0xD1, CHR 0x82, CHR 0xD0, CHR 0xBE] @ '' '' @
     [CHR 0xD0, CHR 0xB2, CHR 0xD1, CHR 0x8B, CHR 0xD0, CHR 0xB4, CHR 0xD0, CHR 0xB5] @
     [CHR 0xD0, CHR 0xBB, CHR 0xD0, CHR 0xB8, CHR 0xD1, CHR 0x82, CHR 0xD1, CHR 0x8C] @ ''.'' @
     [CHR 0x0A] @ ''    '' @
     [CHR 0xD0, CHR 0x94, CHR 0xD0, CHR 0xB5, CHR 0xD0, CHR 0xBB, CHR 0xD0, CHR 0xB0] @
     [CHR 0xD0, CHR 0xB9] @ '' '' @
     [CHR 0xD1, CHR 0x82, CHR 0xD0, CHR 0xB5, CHR 0xD0, CHR 0xBA, CHR 0xD1, CHR 0x81] @
     [CHR 0xD1, CHR 0x82] @ '' '' @
     [CHR 0xD1, CHR 0x85, CHR 0xD0, CHR 0xBE, CHR 0xD1, CHR 0x80, CHR 0xD0, CHR 0xBE] @
     [CHR 0xD1, CHR 0x88, CHR 0xD0, CHR 0xBE] @ '' '' @
     [CHR 0xD1, CHR 0x81, CHR 0xD1, CHR 0x82, CHR 0xD1, CHR 0x80, CHR 0xD1, CHR 0x83] @
     [CHR 0xD0, CHR 0xBA, CHR 0xD1, CHR 0x82, CHR 0xD1, CHR 0x83, CHR 0xD1, CHR 0x80] @
     [CHR 0xD0, CHR 0xB8, CHR 0xD1, CHR 0x80, CHR 0xD0, CHR 0xBE, CHR 0xD0, CHR 0xB2] @
     [CHR 0xD0, CHR 0xB0, CHR 0xD0, CHR 0xBD, CHR 0xD0, CHR 0xBD, CHR 0xD1, CHR 0x8B] @
     [CHR 0xD0, CHR 0xBC] @ '' '' @ [CHR 0xD0, CHR 0xB8] @ '' '' @
     [CHR 0xD0, CHR 0xBF, CHR 0xD0, CHR 0xBE, CHR 0xD0, CHR 0xBD, CHR 0xD1, CHR 0x8F] @
     [CHR 0xD1, CHR 0x82, CHR 0xD0, CHR 0xBD, CHR 0xD1, CHR 0x8B, CHR 0xD0, CHR 0xBC] @
     ''. '' @ [CHR 0xD0, CHR 0x9D, CHR 0xD0, CHR 0x95] @ '' '' @
     [CHR 0xD0, CHR 0x98, CHR 0xD0, CHR 0xA1, CHR 0xD0, CHR 0x9F, CHR 0xD0, CHR 0x9E] @
     [CHR 0xD0, CHR 0x9B, CHR 0xD0, CHR 0xAC, CHR 0xD0, CHR 0x97, CHR 0xD0, CHR 0xA3] @
     [CHR 0xD0, CHR 0x99] @ '' MARKDOWN.'' @ [CHR 0x0A] @ ''    '' @
     [CHR 0xD0, CHR 0xA2, CHR 0xD0, CHR 0xBE, CHR 0xD0, CHR 0xBB, CHR 0xD1, CHR 0x8C] @
     [CHR 0xD0, CHR 0xBA, CHR 0xD0, CHR 0xBE] @ '' '' @
     [CHR 0xD1, CHR 0x8D, CHR 0xD1, CHR 0x82, CHR 0xD0, CHR 0xB8] @ '' '' @
     [CHR 0xD1, CHR 0x82, CHR 0xD0, CHR 0xB5, CHR 0xD0, CHR 0xB3, CHR 0xD0, CHR 0xB8] @
     '' HTML (<b>, <i>, <a>, <code>, <pre>) '' @
     [CHR 0xD0, CHR 0x9D, CHR 0xD0, CHR 0x95, CHR 0xD0, CHR 0x9B, CHR 0xD0, CHR 0xAC] @
     [CHR 0xD0, CHR 0x97, CHR 0xD0, CHR 0xAF] @ '' '' @
     [CHR 0xD0, CHR 0x98, CHR 0xD0, CHR 0xA1, CHR 0xD0, CHR 0x9F, CHR 0xD0, CHR 0x9E] @
     [CHR 0xD0, CHR 0x9B, CHR 0xD0, CHR 0xAC, CHR 0xD0, CHR 0x97, CHR 0xD0, CHR 0x9E] @
     [CHR 0xD0, CHR 0x92, CHR 0xD0, CHR 0x90, CHR 0xD0, CHR 0xA2, CHR 0xD0, CHR 0xAC] @
     '': <ul>, <br>, <table>, <small> '' @ [CHR 0xD0, CHR 0xB8] @ '' '' @
     [CHR 0xD0, CHR 0xBE, CHR 0xD1, CHR 0x81, CHR 0xD1, CHR 0x82, CHR 0xD0, CHR 0xB0] @
     [CHR 0xD0, CHR 0xBB, CHR 0xD1, CHR 0x8C, CHR 0xD0, CHR 0xBD, CHR 0xD1, CHR 0x8B] @
     [CHR 0xD0, CHR 0xB5] @ ''!'' @ [CHR 0x0A] @ ''    '' @
     [CHR 0xD0, CHR 0x9E, CHR 0xD1, CHR 0x82, CHR 0xD0, CHR 0xB2, CHR 0xD0, CHR 0xB5] @
     [CHR 0xD1, CHR 0x87, CHR 0xD0, CHR 0xB0, CHR 0xD0, CHR 0xB9] @ '' '' @
     [CHR 0xD1, CHR 0x87, CHR 0xD0, CHR 0xB5, CHR 0xD1, CHR 0x82, CHR 0xD0, CHR 0xBA] @
     [CHR 0xD0, CHR 0xBE] @ '' '' @ [CHR 0xD0, CHR 0xB8] @ '' '' @
     [CHR 0xD0, CHR 0xBA, CHR 0xD1, CHR 0x80, CHR 0xD0, CHR 0xB0, CHR 0xD1, CHR 0x82] @
     [CHR 0xD0, CHR 0xBA, CHR 0xD0, CHR 0xBE] @ '' '' @
     [CHR 0xD0, CHR 0xBD, CHR 0xD0, CHR 0xB0] @ '' '' @
     [CHR 0xD0, CHR 0xB2, CHR 0xD0, CHR 0xBE, CHR 0xD0, CHR 0xBF, CHR 0xD1, CHR 0x80] @
     [CHR 0xD0, CHR 0xBE, CHR 0xD1, CHR 0x81] @ '' '' @ [CHR 0xD0, CHR 0xB8] @ '' '' @
     [CHR 0xD1, CHR 0x82, CHR 0xD0, CHR 0xBE, CHR 0xD0, CHR 0xBB, CHR 0xD1, CHR 0x8C] @
     [CHR 0xD0, CHR 0xBA, CHR 0xD0, CHR 0xBE] @ '' '' @
     [CHR 0xD0, CHR 0xBD, CHR 0xD0, CHR 0xB0] @ '' '' @
     [CHR 0xD1, CHR 0x80, CHR 0xD1, CHR 0x83, CHR 0xD1, CHR 0x81, CHR 0xD1, CHR 0x81] @
     [CHR 0xD0, CHR 0xBA, CHR 0xD0, CHR 0xBE, CHR 0xD0, CHR 0xBC] @ ''.'' @ [CHR 0x0A] @
     ''    ''"

text \<open>The value of PROMPT_TEMPLATES["text"]: the instruction for questions answered from the corporate wiki.\<close>

definition PROMPT_TEMPLATE_text :: string where
  "PROMPT_TEMPLATE_text =
     [CHR 0x0A] @ ''    '' @ [CHR 0xD0, CHR 0xA2, CHR 0xD1, CHR 0x8B] @ '' '' @
     [CHR 0xE2, CHR 0x80, CHR 0x94] @ '' '' @
     [CHR 0xD0, CHR 0xA4, CHR 0xD1, CHR 0x80, CHR 0xD0, CHR 0xB8, CHR 0xD0, CHR 0xB4] @
     [CHR 0xD0, CHR 0xB0] @ '', '' @
     [CHR 0xD0, CHR 0xB1, CHR 0xD0, CHR 0xBE, CHR 0xD1, CHR 0x82] @ ''-'' @
     [CHR 0xD0, CHR 0xBF, CHR 0xD0, CHR 0xBE, CHR 0xD0, CHR 0xBC, CHR 0xD0, CHR 0xBE] @
     [CHR 0xD1, CHR 0x89, CHR 0xD0, CHR 0xBD, CHR 0xD0, CHR 0xB8, CHR 0xD0, CHR 0xBA] @ '' '' @
     [CHR 0xD0, CHR 0xBA, CHR 0xD0, CHR 0xBE, CHR 0xD0, CHR 0xBC, CHR 0xD0, CHR 0xBF] @
     [CHR 0xD0, CHR 0xB0, CHR 0xD0, CHR 0xBD, CHR 0xD0, CHR 0xB8, CHR 0xD0, CHR 0xB8] @ '' '' @
     [CHR 0xD0, CHR 0xA4, CHR 0xD1, CHR 0x80, CHR 0xD0, CHR 0xB8, CHR 0xD0, CHR 0xB4] @
     [CHR 0xD0, CHR 0xBE, CHR 0xD0, CHR 0xBC] @ ''. '' @
     [CHR 0xD0, CHR 0xA2, CHR 0xD0, CHR 0xB2, CHR 0xD0, CHR 0xBE, CHR 0xD1, CHR 0x8F] @ '' '' @
     [CHR 0xD0, CHR 0xB7, CHR 0xD0, CHR 0xB0, CHR 0xD0, CHR 0xB4, CHR 0xD0, CHR 0xB0] @
     [CHR 0xD1, CHR 0x87, CHR 0xD0, CHR 0xB0] @ '' '' @ [CHR 0xE2, CHR 0x80, CHR 0x94] @
     '' '' @ [CHR 0xD0, CHR 0xBE, CHR 0xD1, CHR 0x82, CHR 0xD0, CHR 0xB2, CHR 0xD0, CHR 0xB5] @
     [CHR 0xD1, CHR 0x87, CHR 0xD0, CHR 0xB0, CHR 0xD1, CHR 0x82, CHR 0xD1, CHR 0x8C] @ '' '' @
     [CHR 0xD0, CHR 0xBD, CHR 0xD0, CHR 0xB0] @ '' '' @
     [CHR 0xD0, CHR 0xB2, CHR 0xD0, CHR 0xBE, CHR 0xD0, CHR 0xBF, CHR 0xD1, CHR 0x80] @
     [CHR 0xD0, CHR 0xBE, CHR 0xD1, CHR 0x81, CHR 0xD1, CHR 0x8B] @ '' '' @
     [CHR 0xD1, CHR 0x81, CHR 0xD0, CHR 0xBE, CHR 0xD1, CHR 0x82, CHR 0xD1, CHR 0x80] @
     [CHR 0xD1, CHR 0x83, CHR 0xD0, CHR 0xB4, CHR 0xD0, CHR 0xBD, CHR 0xD0, CHR 0xB8] @
     [CHR 0xD0, CHR 0xBA, CHR 0xD0, CHR 0xBE, CHR 0xD0, CHR 0xB2] @ '' '' @
     [CHR 0xD0, CHR 0xBA, CHR 0xD0, CHR 0xBE, CHR 0xD0, CHR 0xBC, CHR 0xD0, CHR 0xBF] @
     [CHR 0xD0, CHR 0xB0, CHR 0xD0, CHR 0xBD, CHR 0xD0, CHR 0xB8, CHR 0xD0, CHR 0xB8] @ '','' @
     [CHR 0x0A] @ ''    '' @
     [CHR 0xD0, CHR 0xBE, CHR 0xD1, CHR 0x81, CHR 0xD0, CHR 0xBD, CHR 0xD0, CHR 0xBE] @
     [CHR 0xD0, CHR 0xB2, CHR 0xD1, CHR 0x8B, CHR 0xD0, CHR 0xB2, CHR 0xD0, CHR 0xB0] @
     [CHR 0xD1, CHR 0x8F, CHR 0xD1, CHR 0x81, CHR 0xD1, CHR 0x8C] @ '' '' @
     [CHR 0xD0, CHR 0xBD, CHR 0xD0, CHR 0xB0] @ '' '' @
     [CHR 0xD0, CHR 0xBF, CHR 0xD1, CHR 0x80, CHR 0xD0, CHR 0xB5, CHR 0xD0, CHR 0xB4] @
     [CHR 0xD0, CHR 0xBE, CHR 0xD1, CHR 0x81, CHR 0xD1, CHR 0x82, CHR 0xD0, CHR 0xB0] @
     [CHR 0xD0, CHR 0xB2, CHR 0xD0, CHR 0xBB, CHR 0xD0, CHR 0xB5, CHR 0xD0, CHR 0xBD] @
     [CHR 0xD0, CHR 0xBD, CHR 0xD1, CHR 0x8B, CHR 0xD1, CHR 0x85] @ '' '' @
     [CHR 0xD0, CHR 0xB4, CHR 0xD0, CHR 0xB0, CHR 0xD0, CHR 0xBD, CHR 0xD0, CHR 0xBD] @
     [CHR 0xD1, CHR 0x8B, CHR 0xD1, CHR 0x85] @ '' '' @
     [CHR 0xD0, CHR 0xB8, CHR 0xD0, CHR 0xB7] @ '' '' @
     [CHR 0xD0, CHR 0xBA, CHR 0xD0, CHR 0xBE, CHR 0xD1, CHR 0x80, CHR 0xD0, CHR 0xBF] @
     [CHR 0xD0, CHR 0xBE, CHR 0xD1, CHR 0x80, CHR 0xD0, CHR 0xB0, CHR 0xD1, CHR 0x82] @
     [CHR 0xD0, CHR 0xB8, CHR 0xD0, CHR 0xB2, CHR 0xD0, CHR 0xBD, CHR 0xD0, CHR 0xBE] @
     [CHR 0xD0, CHR 0xB9] @ '' WIKI, '' @
     [CHR 0xD1, CHR 0x81, CHR 0xD0, CHR 0xBE, CHR 0xD0, CHR 0xB4, CHR 0xD0, CHR 0xB5] @
     [CHR 0xD1, CHR 0x80, CHR 0xD0, CHR 0xB6, CHR 0xD0, CHR 0xB0, CHR 0xD1, CHR 0x89] @
     [CHR 0xD0, CHR 0xB8, CHR 0xD1, CHR 0x85] @ '' '' @
     [CHR 0xD0, CHR 0xB2, CHR 0xD0, CHR 0xB0, CHR 0xD0, CHR 0xB6, CHR 0xD0, CHR 0xBD] @
     [CHR 0xD1, CHR 0x83, CHR 0xD1, CHR 0x8E] @ '' '' @
     [CHR 0xD0, CHR 0xB8, CHR 0xD0, CHR 0xBD, CHR 0xD1, CHR 0x84, CHR 0xD0, CHR 0xBE] @
     [CHR 0xD1, CHR 0x80, CHR 0xD0, CHR 0xBC, CHR 0xD0, CHR 0xB0, CHR 0xD1, CHR 0x86] @
     [CHR 0xD0, CHR 0xB8, CHR 0xD1, CHR 0x8E] @ '' '' @
     [CHR 0xD0, CHR 0xB8, CHR 0xD0, CHR 0xB7] @ '' '' @
     [CHR 0xD1, CHR 0x81, CHR 0xD1, CHR 0x82, CHR 0xD0, CHR 0xB0, CHR 0xD1, CHR 0x82] @
     [CHR 0xD0, CHR 0xB5, CHR 0xD0, CHR 0xB9] @ ''.'' @ [CHR 0x0A, CHR 0x0A] @ ''    '' @
     [CHR 0xD0, CHR 0x98, CHR 0xD0, CHR 0xBD, CHR 0xD1, CHR 0x81, CHR 0xD1, CHR 0x82] @
     [CHR 0xD1, CHR 0x80, CHR 0xD1, CHR 0x83, CHR 0xD0, CHR 0xBA, CHR 0xD1, CHR 0x86] @
     [CHR 0xD0, CHR 0xB8, CHR 0xD0, CHR 0xB8] @ '':'' @ [CHR 0x0A] @ ''    1. '' @
     [CHR 0xD0, CHR 0x95, CHR 0xD1, CHR 0x81, CHR 0xD0, CHR 0xBB, CHR 0xD0, CHR 0xB8] @ '' '' @
     [CHR 0xD0, CHR 0xB2, CHR 0xD0, CHR 0xBE, CHR 0xD0, CHR 0xBF, CHR 0xD1, CHR 0x80] @
     [CHR 0xD0, CHR 0xBE, CHR 0xD1, CHR 0x81] @ '' '' @
     [CHR 0xD0, CHR 0xBD, CHR 0xD0, CHR 0xB5] @ '' '' @
     [CHR 0xD0, CHR 0xBF, CHR 0xD1, CHR 0x80, CHR 0xD0, CHR 0xBE] @ '' '' @
     [CHR 0xD1, CHR 0x82, CHR 0xD0, CHR 0xB0, CHR 0xD1, CHR 0x80, CHR 0xD0, CHR 0xB8] @
     [CHR 0xD1, CHR 0x84, CHR 0xD1, CHR 0x8B] @ '', '' @
     [CHR 0xD1, CHR 0x82, CHR 0xD0, CHR 0xBE] @ '' '' @
     [CHR 0xD0, CHR 0xBE, CHR 0xD1, CHR 0x82, CHR 0xD0, CHR 0xB2, CHR 0xD0, CHR 0xB5] @
     [CHR 0xD1, CHR 0x87, CHR 0xD0, CHR 0xB0, CHR 0xD0, CHR 0xB9] @ '' '' @
     [CHR 0xD0, CHR 0xBD, CHR 0xD0, CHR 0xB0] @ '' '' @
     [CHR 0xD0, CHR 0xBD, CHR 0xD0, CHR 0xB5, CHR 0xD0, CHR 0xB3, CHR 0xD0, CHR 0xBE] @ '' '' @
     [CHR 0xD0, CHR 0xBA, CHR 0xD0, CHR 0xB0, CHR 0xD0, CHR 0xBA] @ '' '' @
     [CHR 0xD0, CHR 0xBE, CHR 0xD0, CHR 0xB1, CHR 0xD1, CHR 0x8B, CHR 0xD1, CHR 0x87] @
     [CHR 0xD0, CHR 0xBD, CHR 0xD0, CHR 0xBE] @ ''.'' @ [CHR 0x0A] @ ''    2. '' @
     [CHR 0xD0, CHR 0x95, CHR 0xD1, CHR 0x81, CHR 0xD0, CHR 0xBB, CHR 0xD0, CHR 0xB8] @ '' '' @
     [CHR 0xD0, CHR 0xB2, CHR 0xD0, CHR 0xBE, CHR 0xD0, CHR 0xBF, CHR 0xD1, CHR 0x80] @
     [CHR 0xD0, CHR 0xBE, CHR 0xD1, CHR 0x81] @ '' '' @ [CHR 0xD0, CHR 0xBE] @ '' '' @
     [CHR 0xD1, CHR 0x82, CHR 0xD0, CHR 0xB0, CHR 0xD1, CHR 0x80, CHR 0xD0, CHR 0xB8] @
     [CHR 0xD1, CHR 0x84, CHR 0xD0, CHR 0xB0, CHR 0xD1, CHR 0x85] @ '':'' @ [CHR 0x0A] @
     ''       - '' @
     [CHR 0xD0, CHR 0x95, CHR 0xD1, CHR 0x81, CHR 0xD0, CHR 0xBB, CHR 0xD0, CHR 0xB8] @ '' '' @
     [CHR 0xD0, CHR 0xB2] @ '' '' @
     [CHR 0xD0, CHR 0xBA, CHR 0xD0, CHR 0xBE, CHR 0xD0, CHR 0xBD, CHR 0xD1, CHR 0x82] @
     [CHR 0xD0, CHR 0xB5, CHR 0xD0, CHR 0xBA, CHR 0xD1, CHR 0x81, CHR 0xD1, CHR 0x82] @
     [CHR 0xD0, CHR 0xB5] @ '' '' @
     [CHR 0xD0, CHR 0xBF, CHR 0xD1, CHR 0x80, CHR 0xD0, CHR 0xB5, CHR 0xD0, CHR 0xB4] @
     [CHR 0xD1, CHR 0x81, CHR 0xD1, CHR 0x82, CHR 0xD0, CHR 0xB0, CHR 0xD0, CHR 0xB2] @
     [CHR 0xD0, CHR 0xBB, CHR 0xD0, CHR 0xB5, CHR 0xD0, CHR 0xBD] @ '' '' @
     [CHR 0xD0, CHR 0xBA, CHR 0xD0, CHR 0xBE, CHR 0xD0, CHR 0xBD, CHR 0xD1, CHR 0x82] @
     [CHR 0xD0, CHR 0xB5, CHR 0xD0, CHR 0xBA, CHR 0xD1, CHR 0x81, CHR 0xD1, CHR 0x82] @ '' '' @
     [CHR 0xD1, CHR 0x82, CHR 0xD0, CHR 0xB0, CHR 0xD1, CHR 0x80, CHR 0xD0, CHR 0xB8] @
     [CHR 0xD1, CHR 0x84, CHR 0xD0, CHR 0xBE, CHR 0xD0, CHR 0xB2] @ '', '' @
     [CHR 0xD1, CHR 0x82, CHR 0xD0, CHR 0xBE] @ '' '' @
     [CHR 0xD0, CHR 0xB5, CHR 0xD1, CHR 0x81, CHR 0xD1, CHR 0x82, CHR 0xD1, CHR 0x8C] @ '' '' @
     [CHR 0xD1, CHR 0x81, CHR 0xD0, CHR 0xBB, CHR 0xD0, CHR 0xBE, CHR 0xD0, CHR 0xB2] @
     [CHR 0xD0, CHR 0xB0, CHR 0xD1, CHR 0x80, CHR 0xD1, CHR 0x8C] @ '' '' @
     [CHR 0xD1, CHR 0x81] @ '' '' @
     [CHR 0xD1, CHR 0x82, CHR 0xD0, CHR 0xB0, CHR 0xD1, CHR 0x80, CHR 0xD0, CHR 0xB8] @
     [CHR 0xD1, CHR 0x84, CHR 0xD0, CHR 0xB0, CHR 0xD0, CHR 0xBC, CHR 0xD0, CHR 0xB8] @
     '', '' @
     [CHR 0xD0, CHR 0xBE, CHR 0xD1, CHR 0x82, CHR 0xD0, CHR 0xB2, CHR 0xD0, CHR 0xB5] @
     [CHR 0xD1, CHR 0x82, CHR 0xD1, CHR 0x8C] @ '' '' @
     [CHR 0xD0, CHR 0xBD, CHR 0xD0, CHR 0xB0] @ '' '' @
     [CHR 0xD0, CHR 0xB2, CHR 0xD0, CHR 0xBE, CHR 0xD0, CHR 0xBF, CHR 0xD1, CHR 0x80] @
     [CHR 0xD0, CHR 0xBE, CHR 0xD1, CHR 0x81] @ '' '' @
     [CHR 0xD0, CHR 0xBA, CHR 0xD0, CHR 0xB0, CHR 0xD0, CHR 0xBA] @ '' '' @
     [CHR 0xD0, CHR 0xBE, CHR 0xD0, CHR 0xB1, CHR 0xD1, CHR 0x8B, CHR 0xD1, CHR 0x87] @
     [CHR 0xD0, CHR 0xBD, CHR 0xD0, CHR 0xBE] @ ''.'' @ [CHR 0x0A] @ ''       - '' @
     [CHR 0xD0, CHR 0x95, CHR 0xD1, CHR 0x81, CHR 0xD0, CHR 0xBB, CHR 0xD0, CHR 0xB8] @ '' '' @
     [CHR 0xD0, CHR 0xB2] @ '' '' @
     [CHR 0xD0, CHR 0xBA, CHR 0xD0, CHR 0xBE, CHR 0xD0, CHR 0xBD, CHR 0xD1, CHR 0x82] @
     [CHR 0xD0, CHR 0xB5, CHR 0xD0, CHR 0xBA, CHR 0xD1, CHR 0x81, CHR 0xD1, CHR 0x82] @
     [CHR 0xD0, CHR 0xB5] @ '' '' @
     [CHR 0xD1, CHR 0x82, CHR 0xD0, CHR 0xB5, CHR 0xD0, CHR 0xBA, CHR 0xD1, CHR 0x81] @
     [CHR 0xD1, CHR 0x82] @ '' '' @ [CHR 0xD1, CHR 0x81, CHR 0xD0, CHR 0xBE] @ '' '' @
     [CHR 0xD1, CHR 0x81, CHR 0xD1, CHR 0x81, CHR 0xD1, CHR 0x8B, CHR 0xD0, CHR 0xBB] @
     [CHR 0xD0, CHR 0xBA, CHR 0xD0, CHR 0xB0, CHR 0xD0, CHR 0xBC, CHR 0xD0, CHR 0xB8] @ '' '' @
     [CHR 0xD0, CHR 0xBD, CHR 0xD0, CHR 0xB0] @ '' WIKI, '' @
     [CHR 0xD1, CHR 0x8D, CHR 0xD1, CHR 0x82, CHR 0xD0, CHR 0xBE] @ '' '' @
     [CHR 0xD0, CHR 0xB7, CHR 0xD0, CHR 0xBD, CHR 0xD0, CHR 0xB0, CHR 0xD1, CHR 0x87] @
     [CHR 0xD0, CHR 0xB8, CHR 0xD1, CHR 0x82] @ '', '' @
     [CHR 0xD1, CHR 0x87, CHR 0xD1, CHR 0x82, CHR 0xD0, CHR 0xBE] @ '' '' @
     [CHR 0xD1, CHR 0x87, CHR 0xD0, CHR 0xB5, CHR 0xD0, CHR 0xBB, CHR 0xD0, CHR 0xBE] @
     [CHR 0xD0, CHR 0xB2, CHR 0xD0, CHR 0xB5, CHR 0xD0, CHR 0xBA] @ '' '' @
     [CHR 0xD0, CHR 0xBD, CHR 0xD0, CHR 0xB5] @ '' '' @
     [CHR 0xD1, CHR 0x83, CHR 0xD0, CHR 0xBA, CHR 0xD0, CHR 0xB0, CHR 0xD0, CHR 0xB7] @
     [CHR 0xD0, CHR 0xB0, CHR 0xD0, CHR 0xBB] @ '' '' @
     [CHR 0xD1, CHR 0x82, CHR 0xD0, CHR 0xB5, CHR 0xD1, CHR 0x80, CHR 0xD1, CHR 0x80] @
     [CHR 0xD0, CHR 0xB8, CHR 0xD1, CHR 0x82, CHR 0xD0, CHR 0xBE, CHR 0xD1, CHR 0x80] @
     [CHR 0xD0, CHR 0xB8, CHR 0xD1, CHR 0x8E] @ '' '' @
     [CHR 0xD1, CHR 0x87, CHR 0xD0, CHR 0xB5, CHR 0xD1, CHR 0x80, CHR 0xD0, CHR 0xB5] @
     [CHR 0xD0, CHR 0xB7] @ '' '' @
     [CHR 0xD0, CHR 0xBA, CHR 0xD0, CHR 0xBE, CHR 0xD0, CHR 0xBC, CHR 0xD0, CHR 0xB0] @
     [CHR 0xD0, CHR 0xBD, CHR 0xD0, CHR 0xB4, CHR 0xD1, CHR 0x83] @ '' /tariff. '' @
     [CHR 0xD0, CHR 0x9F, CHR 0xD1, CHR 0x80, CHR 0xD0, CHR 0xB5, CHR 0xD0, CHR 0xB4] @
     [CHR 0xD0, CHR 0xBB, CHR 0xD0, CHR 0xBE, CHR 0xD0, CHR 0xB6, CHR 0xD0, CHR 0xB8] @ '' '' @
     [CHR 0xD0, CHR 0xB2, CHR 0xD0, CHR 0xBE, CHR 0xD1, CHR 0x81, CHR 0xD0, CHR 0xBF] @
     [CHR 0xD0, CHR 0xBE, CHR 0xD0, CHR 0xBB, CHR 0xD1, CHR 0x8C, CHR 0xD0, CHR 0xB7] @
     [CHR 0xD0, CHR 0xBE, CHR 0xD0, CHR 0xB2, CHR 0xD0, CHR 0xB0, CHR 0xD1, CHR 0x82] @
     [CHR 0xD1, CHR 0x8C, CHR 0xD1, CHR 0x81, CHR 0xD1, CHR 0x8F] @ '' '' @
     [CHR 0xD1, CHR 0x8D, CHR 0xD1, CHR 0x82, CHR 0xD0, CHR 0xBE, CHR 0xD0, CHR 0xB9] @ '' '' @
     [CHR 0xD0, CHR 0xBA, CHR 0xD0, CHR 0xBE, CHR 0xD0, CHR 0xBC, CHR 0xD0, CHR 0xB0] @
     [CHR 0xD0, CHR 0xBD, CHR 0xD0, CHR 0xB4, CHR 0xD0, CHR 0xBE, CHR 0xD0, CHR 0xB9] @
     '', '' @
     [CHR 0xD1, CHR 0x87, CHR 0xD1, CHR 0x82, CHR 0xD0, CHR 0xBE, CHR 0xD0, CHR 0xB1] @
     [CHR 0xD1, CHR 0x8B] @ '' '' @
     [CHR 0xD1, CHR 0x83, CHR 0xD1, CHR 0x82, CHR 0xD0, CHR 0xBE, CHR 0xD1, CHR 0x87] @
     [CHR 0xD0, CHR 0xBD, CHR 0xD0, CHR 0xB8, CHR 0xD1, CHR 0x82, CHR 0xD1, CHR 0x8C] @ '' '' @
     [CHR 0xD1, CHR 0x82, CHR 0xD0, CHR 0xB5, CHR 0xD1, CHR 0x80, CHR 0xD1, CHR 0x80] @
     [CHR 0xD0, CHR 0xB8, CHR 0xD1, CHR 0x82, CHR 0xD0, CHR 0xBE, CHR 0xD1, CHR 0x80] @
     [CHR 0xD0, CHR 0xB8, CHR 0xD1, CHR 0x8E] @ '', '' @ [CHR 0xD0, CHR 0xB0] @ '' '' @
     [CHR 0xD0, CHR 0xB7, CHR 0xD0, CHR 0xB0, CHR 0xD1, CHR 0x82, CHR 0xD0, CHR 0xB5] @
     [CHR 0xD0, CHR 0xBC] @ '' '' @
     [CHR 0xD0, CHR 0xB7, CHR 0xD0, CHR 0xB0, CHR 0xD0, CHR 0xB4, CHR 0xD0, CHR 0xB0] @
     [CHR 0xD1, CHR 0x82, CHR 0xD1, CHR 0x8C] @ '' '' @
     [CHR 0xD0, CHR 0xB2, CHR 0xD0, CHR 0xBE, CHR 0xD0, CHR 0xBF, CHR 0xD1, CHR 0x80] @
     [CHR 0xD0, CHR 0xBE, CHR 0xD1, CHR 0x81] @ ''.'' @ [CHR 0x0A] @ ''    3. '' @
     [CHR 0xD0, CHR 0x9D, CHR 0xD0, CHR 0xB5] @ '' '' @
     [CHR 0xD0, CHR 0xB2, CHR 0xD1, CHR 0x8B, CHR 0xD0, CHR 0xB4, CHR 0xD1, CHR 0x83] @
     [CHR 0xD0, CHR 0xBC, CHR 0xD1, CHR 0x8B, CHR 0xD0, CHR 0xB2, CHR 0xD0, CHR 0xB0] @
     [CHR 0xD0, CHR 0xB9] @ '' '' @
     [CHR 0xD1, CHR 0x84, CHR 0xD0, CHR 0xB0, CHR 0xD0, CHR 0xBA, CHR 0xD1, CHR 0x82] @
     [CHR 0xD1, CHR 0x8B] @ ''.'' @ [CHR 0x0A] @ ''    4. '' @
     [CHR 0xD0, CHR 0xA1, CHR 0xD1, CHR 0x82, CHR 0xD1, CHR 0x80, CHR 0xD0, CHR 0xBE] @
     [CHR 0xD0, CHR 0xB3, CHR 0xD0, CHR 0xBE] @ '' '' @
     [CHR 0xD0, CHR 0xB7, CHR 0xD0, CHR 0xB0, CHR 0xD0, CHR 0xBF, CHR 0xD1, CHR 0x80] @
     [CHR 0xD0, CHR 0xB5, CHR 0xD1, CHR 0x89, CHR 0xD0, CHR 0xB5, CHR 0xD0, CHR 0xBD] @
     [CHR 0xD0, CHR 0xBE] @ '' '' @
     [CHR 0xD0, CHR 0xB8, CHR 0xD1, CHR 0x81, CHR 0xD0, CHR 0xBF, CHR 0xD0, CHR 0xBE] @
     [CHR 0xD0, CHR 0xBB, CHR 0xD1, CHR 0x8C, CHR 0xD0, CHR 0xB7, CHR 0xD0, CHR 0xBE] @
     [CHR 0xD0, CHR 0xB2, CHR 0xD0, CHR 0xB0, CHR 0xD1, CHR 0x82, CHR 0xD1, CHR 0x8C] @
     '' MARKDOWN. '' @
     [CHR 0xD0, CHR 0x98, CHR 0xD1, CHR 0x81, CHR 0xD0, CHR 0xBF, CHR 0xD0, CHR 0xBE] @
     [CHR 0xD0, CHR 0xBB, CHR 0xD1, CHR 0x8C, CHR 0xD0, CHR 0xB7, CHR 0xD1, CHR 0x83] @
     [CHR 0xD0, CHR 0xB9] @ '' '' @
     [CHR 0xD1, CHR 0x82, CHR 0xD0, CHR 0xBE, CHR 0xD0, CHR 0xBB, CHR 0xD1, CHR 0x8C] @
     [CHR 0xD0, CHR 0xBA, CHR 0xD0, CHR 0xBE] @ '' '' @
     [CHR 0xD1, CHR 0x8D, CHR 0xD1, CHR 0x82, CHR 0xD0, CHR 0xB8] @ '' '' @
     [CHR 0xD1, CHR 0x82, CHR 0xD0, CHR 0xB5, CHR 0xD0, CHR 0xB3, CHR 0xD0, CHR 0xB8] @
     '' HTML (<b>, <i>, <a>, <code>, <pre>) '' @
     [CHR 0xD0, CHR 0x9D, CHR 0xD0, CHR 0x95, CHR 0xD0, CHR 0x9B, CHR 0xD0, CHR 0xAC] @
     [CHR 0xD0, CHR 0x97, CHR 0xD0, CHR 0xAF] @ '' '' @
     [CHR 0xD0, CHR 0x98, CHR 0xD0, CHR 0xA1, CHR 0xD0, CHR 0x9F, CHR 0xD0, CHR 0x9E] @
     [CHR 0xD0, CHR 0x9B, CHR 0xD0, CHR 0xAC, CHR 0xD0, CHR 0x97, CHR 0xD0, CHR 0x9E] @
     [CHR 0xD0, CHR 0x92, CHR 0xD0, CHR 0x90, CHR 0xD0, CHR 0xA2, CHR 0xD0, CHR 0xAC] @
     '': <ul>, <br>, <table>, <small> '' @ [CHR 0xD0, CHR 0xB8] @ '' '' @
     [CHR 0xD0, CHR 0xBE, CHR 0xD1, CHR 0x81, CHR 0xD1, CHR 0x82, CHR 0xD0, CHR 0xB0] @
     [CHR 0xD0, CHR 0xBB, CHR 0xD1, CHR 0x8C, CHR 0xD0, CHR 0xBD, CHR 0xD1, CHR 0x8B] @
     [CHR 0xD0, CHR 0xB5] @ ''!'' @ [CHR 0x0A] @ ''    5. '' @
     [CHR 0xD0, CHR 0x95, CHR 0xD1, CHR 0x81, CHR 0xD0, CHR 0xBB, CHR 0xD0, CHR 0xB8] @ '' '' @
     [CHR 0xD0, CHR 0xB2] @ '' '' @
     [CHR 0xD0, CHR 0xBA, CHR 0xD0, CHR 0xBE, CHR 0xD0, CHR 0xBD, CHR 0xD1, CHR 0x82] @
     [CHR 0xD0, CHR 0xB5, CHR 0xD0, CHR 0xBA, CHR 0xD1, CHR 0x81, CHR 0xD1, CHR 0x82] @
     [CHR 0xD0, CHR 0xB5] @ '' '' @
     [CHR 0xD1, CHR 0x83, CHR 0xD0, CHR 0xBA, CHR 0xD0, CHR 0xB0, CHR 0xD0, CHR 0xB7] @
     [CHR 0xD0, CHR 0xB0, CHR 0xD0, CHR 0xBD, CHR 0xD0, CHR 0xB0] @ '' '' @
     [CHR 0xD1, CHR 0x81, CHR 0xD1, CHR 0x81, CHR 0xD1, CHR 0x8B, CHR 0xD0, CHR 0xBB] @
     [CHR 0xD0, CHR 0xBA, CHR 0xD0, CHR 0xB0] @ '' '' @
     [CHR 0xD0, CHR 0xBD, CHR 0xD0, CHR 0xB0, CHR 0xD1, CHR 0x87, CHR 0xD0, CHR 0xB8] @
     [CHR 0xD0, CHR 0xBD, CHR 0xD0, CHR 0xB0, CHR 0xD1, CHR 0x8E, CHR 0xD1, CHR 0x89] @
     [CHR 0xD0, CHR 0xB8, CHR 0xD0, CHR 0xB5, CHR 0xD1, CHR 0x81, CHR 0xD1, CHR 0x8F] @ '' '' @
     [CHR 0xD0, CHR 0xBD, CHR 0xD0, CHR 0xB0] @ '' http://wiki.freedom1.ru:8080/ , '' @
     [CHR 0xD1, CHR 0x82, CHR 0xD0, CHR 0xBE] @ '' '' @
     [CHR 0xD0, CHR 0xBF, CHR 0xD1, CHR 0x80, CHR 0xD0, CHR 0xB8, CHR 0xD0, CHR 0xBA] @
     [CHR 0xD1, CHR 0x80, CHR 0xD0, CHR 0xB5, CHR 0xD0, CHR 0xBF, CHR 0xD0, CHR 0xB8] @ '' '' @
     [CHR 0xD0, CHR 0xBE, CHR 0xD1, CHR 0x82, CHR 0xD0, CHR 0xBA, CHR 0xD1, CHR 0x83] @
     [CHR 0xD0, CHR 0xB4, CHR 0xD0, CHR 0xB0] @ '' '' @
     [CHR 0xD0, CHR 0xB1, CHR 0xD1, CHR 0x80, CHR 0xD0, CHR 0xB0, CHR 0xD0, CHR 0xBB] @ '' '' @
     [CHR 0xD0, CHR 0xB8, CHR 0xD0, CHR 0xBD, CHR 0xD1, CHR 0x84, CHR 0xD0, CHR 0xBE] @
     [CHR 0xD1, CHR 0x80, CHR 0xD0, CHR 0xBC, CHR 0xD0, CHR 0xB0, CHR 0xD1, CHR 0x86] @
     [CHR 0xD0, CHR 0xB8, CHR 0xD1, CHR 0x8E] @ '' '' @ [CHR 0xD0, CHR 0xB2] @ '' '' @
     [CHR 0xD0, CHR 0xBE, CHR 0xD1, CHR 0x82, CHR 0xD0, CHR 0xB2, CHR 0xD0, CHR 0xB5] @
     [CHR 0xD1, CHR 0x82, CHR 0xD0, CHR 0xB5] @ ''. '' @ [CHR 0xD0, CHR 0x92] @ '' '' @
     [CHR 0xD0, CHR 0xB2, CHR 0xD0, CHR 0xBE, CHR 0xD0, CHR 0xBF, CHR 0xD1, CHR 0x80] @
     [CHR 0xD0, CHR 0xBE, CHR 0xD1, CHR 0x81, CHR 0xD0, CHR 0xB5] @ '' '' @
     [CHR 0xD0, CHR 0xBF, CHR 0xD1, CHR 0x80, CHR 0xD0, CHR 0xBE] @ '' '' @
     [CHR 0xD1, CHR 0x82, CHR 0xD0, CHR 0xB0, CHR 0xD1, CHR 0x80, CHR 0xD0, CHR 0xB8] @
     [CHR 0xD1, CHR 0x84, CHR 0xD1, CHR 0x8B] @ '' '' @
     [CHR 0xD1, CHR 0x8D, CHR 0xD1, CHR 0x82, CHR 0xD0, CHR 0xBE] @ '' '' @
     [CHR 0xD0, CHR 0xBD, CHR 0xD0, CHR 0xB5] @ '' '' @
     [CHR 0xD0, CHR 0xBD, CHR 0xD1, CHR 0x83, CHR 0xD0, CHR 0xB6, CHR 0xD0, CHR 0xBD] @
     [CHR 0xD0, CHR 0xBE] @ ''.'' @ [CHR 0x0A] @ ''    ''"

text \<open>The default of the template lookup in the message-list branch of try_model (in English: you are a helper bot, answer clearly and briefly in Russian).\<close>

definition DEFAULT_SYSTEM_PROMPT :: string where
  "DEFAULT_SYSTEM_PROMPT =
     [CHR 0xD0, CHR 0xA2, CHR 0xD1, CHR 0x8B] @ '' '' @ [CHR 0xE2, CHR 0x80, CHR 0x94] @
     '' '' @ [CHR 0xD0, CHR 0xB1, CHR 0xD0, CHR 0xBE, CHR 0xD1, CHR 0x82] @ ''-'' @
     [CHR 0xD0, CHR 0xBF, CHR 0xD0, CHR 0xBE, CHR 0xD0, CHR 0xBC, CHR 0xD0, CHR 0xBE] @
     [CHR 0xD1, CHR 0x89, CHR 0xD0, CHR 0xBD, CHR 0xD0, CHR 0xB8, CHR 0xD0, CHR 0xBA] @
     ''. '' @
     [CHR 0xD0, CHR 0x9E, CHR 0xD1, CHR 0x82, CHR 0xD0, CHR 0xB2, CHR 0xD0, CHR 0xB5] @
     [CHR 0xD1, CHR 0x87, CHR 0xD0, CHR 0xB0, CHR 0xD0, CHR 0xB9] @ '' '' @
     [CHR 0xD1, CHR 0x87, CHR 0xD0, CHR 0xB5, CHR 0xD1, CHR 0x82, CHR 0xD0, CHR 0xBA] @
     [CHR 0xD0, CHR 0xBE] @ '' '' @ [CHR 0xD0, CHR 0xB8] @ '' '' @
     [CHR 0xD0, CHR 0xBA, CHR 0xD1, CHR 0x80, CHR 0xD0, CHR 0xB0, CHR 0xD1, CHR 0x82] @
     [CHR 0xD0, CHR 0xBA, CHR 0xD0, CHR 0xBE] @ '' '' @
     [CHR 0xD0, CHR 0xBD, CHR 0xD0, CHR 0xB0] @ '' '' @
     [CHR 0xD1, CHR 0x80, CHR 0xD1, CHR 0x83, CHR 0xD1, CHR 0x81, CHR 0xD1, CHR 0x81] @
     [CHR 0xD0, CHR 0xBA, CHR 0xD0, CHR 0xBE, CHR 0xD0, CHR 0xBC] @ '' '' @
     [CHR 0xD1, CHR 0x8F, CHR 0xD0, CHR 0xB7, CHR 0xD1, CHR 0x8B, CHR 0xD0, CHR 0xBA] @
     [CHR 0xD0, CHR 0xB5] @ ''.''"

text \<open>The label in front of the query.\<close>

definition LABEL_query :: string where
  "LABEL_query =
     [CHR 0xD0, CHR 0x97, CHR 0xD0, CHR 0xB0, CHR 0xD0, CHR 0xBF, CHR 0xD1, CHR 0x80] @
     [CHR 0xD0, CHR 0xBE, CHR 0xD1, CHR 0x81] @ '': ''"

text \<open>The label in front of the context, with the line break that precedes it.\<close>

definition LABEL_context :: string where
  "LABEL_context =
     [CHR 0x0A, CHR 0xD0, CHR 0x9A, CHR 0xD0, CHR 0xBE, CHR 0xD0, CHR 0xBD, CHR 0xD1] @
     [CHR 0x82, CHR 0xD0, CHR 0xB5, CHR 0xD0, CHR 0xBA, CHR 0xD1, CHR 0x81, CHR 0xD1] @
     [CHR 0x82] @ '': ''"

text \<open>The label in front of the history, with the line break that precedes it.\<close>

definition LABEL_history :: string where
  "LABEL_history =
     [CHR 0x0A, CHR 0xD0, CHR 0x98, CHR 0xD1, CHR 0x81, CHR 0xD1, CHR 0x82, CHR 0xD0] @
     [CHR 0xBE, CHR 0xD1, CHR 0x80, CHR 0xD0, CHR 0xB8, CHR 0xD1, CHR 0x8F] @ '': ''"

text \<open>The text before the model name in the message of the status-400 error.\<close>

definition UNSUPPORTED_PREFIX :: string where
  "UNSUPPORTED_PREFIX =
     [CHR 0xD0, CHR 0x9C, CHR 0xD0, CHR 0xBE, CHR 0xD0, CHR 0xB4, CHR 0xD0, CHR 0xB5] @
     [CHR 0xD0, CHR 0xBB, CHR 0xD1, CHR 0x8C] @ '' '' @ [CHR 0x27]"

text \<open>The text after the model name in the message of the status-400 error (in English: is not supported).\<close>

definition UNSUPPORTED_SUFFIX :: string where
  "UNSUPPORTED_SUFFIX =
     [CHR 0x27] @ '' '' @ [CHR 0xD0, CHR 0xBD, CHR 0xD0, CHR 0xB5] @ '' '' @
     [CHR 0xD0, CHR 0xBF, CHR 0xD0, CHR 0xBE, CHR 0xD0, CHR 0xB4, CHR 0xD0, CHR 0xB4] @
     [CHR 0xD0, CHR 0xB5, CHR 0xD1, CHR 0x80, CHR 0xD0, CHR 0xB6, CHR 0xD0, CHR 0xB8] @
     [CHR 0xD0, CHR 0xB2, CHR 0xD0, CHR 0xB0, CHR 0xD0, CHR 0xB5, CHR 0xD1, CHR 0x82] @
     [CHR 0xD1, CHR 0x81, CHR 0xD1, CHR 0x8F]"

text \<open>The message of the status-500 error (in English: no model gave an answer).\<close>

definition ALL_FAILED_MESSAGE :: string where
  "ALL_FAILED_MESSAGE =
     [CHR 0xD0, CHR 0x9D, CHR 0xD0, CHR 0xB5] @ '' '' @
     [CHR 0xD1, CHR 0x83, CHR 0xD0, CHR 0xB4, CHR 0xD0, CHR 0xB0, CHR 0xD0, CHR 0xBB] @
     [CHR 0xD0, CHR 0xBE, CHR 0xD1, CHR 0x81, CHR 0xD1, CHR 0x8C] @ '' '' @
     [CHR 0xD0, CHR 0xBF, CHR 0xD0, CHR 0xBE, CHR 0xD0, CHR 0xBB, CHR 0xD1, CHR 0x83] @
     [CHR 0xD1, CHR 0x87, CHR 0xD0, CHR 0xB8, CHR 0xD1, CHR 0x82, CHR 0xD1, CHR 0x8C] @ '' '' @
     [CHR 0xD0, CHR 0xBE, CHR 0xD1, CHR 0x82, CHR 0xD0, CHR 0xB2, CHR 0xD0, CHR 0xB5] @
     [CHR 0xD1, CHR 0x82] @ '' '' @ [CHR 0xD0, CHR 0xBD, CHR 0xD0, CHR 0xB8] @ '' '' @
     [CHR 0xD0, CHR 0xBE, CHR 0xD1, CHR 0x82] @ '' '' @
     [CHR 0xD0, CHR 0xBE, CHR 0xD0, CHR 0xB4, CHR 0xD0, CHR 0xBD, CHR 0xD0, CHR 0xBE] @
     [CHR 0xD0, CHR 0xB9] @ '' '' @
     [CHR 0xD0, CHR 0xBC, CHR 0xD0, CHR 0xBE, CHR 0xD0, CHR 0xB4, CHR 0xD0, CHR 0xB5] @
     [CHR 0xD0, CHR 0xBB, CHR 0xD0, CHR 0xB8]"

text \<open>The fallback annotation up to the name of the model that answered.\<close>

definition FALLBACK_PREFIX :: string where
  "FALLBACK_PREFIX =
     ''<i>'' @ [CHR 0xE2, CHR 0x9A, CHR 0xA0, CHR 0xEF, CHR 0xB8, CHR 0x8F] @ '' '' @
     [CHR 0xD0, CHR 0x98, CHR 0xD1, CHR 0x81, CHR 0xD0, CHR 0xBF, CHR 0xD0, CHR 0xBE] @
     [CHR 0xD0, CHR 0xBB, CHR 0xD1, CHR 0x8C, CHR 0xD0, CHR 0xB7, CHR 0xD1, CHR 0x83] @
     [CHR 0xD0, CHR 0xB5, CHR 0xD1, CHR 0x82, CHR 0xD1, CHR 0x81, CHR 0xD1, CHR 0x8F] @ '' '' @
     [CHR 0xD0, CHR 0xBC, CHR 0xD0, CHR 0xBE, CHR 0xD0, CHR 0xB4, CHR 0xD0, CHR 0xB5] @
     [CHR 0xD0, CHR 0xBB, CHR 0xD1, CHR 0x8C] @ '' ''"

text \<open>The fallback annotation between the two model names.\<close>

definition FALLBACK_MIDDLE :: string where
  "FALLBACK_MIDDLE =
     '', '' @ [CHR 0xD1, CHR 0x82, CHR 0xD0, CHR 0xB0, CHR 0xD0, CHR 0xBA] @ '' '' @
     [CHR 0xD0, CHR 0xBA, CHR 0xD0, CHR 0xB0, CHR 0xD0, CHR 0xBA] @ '' ''"

text \<open>The fallback annotation after the name of the requested model, with the blank line that ends it.\<close>

definition FALLBACK_SUFFIX :: string where
  "FALLBACK_SUFFIX =
     '' '' @ [CHR 0xD0, CHR 0xBD, CHR 0xD0, CHR 0xB5, CHR 0xD0, CHR 0xB4, CHR 0xD0, CHR 0xBE] @
     [CHR 0xD1, CHR 0x81, CHR 0xD1, CHR 0x82, CHR 0xD1, CHR 0x83, CHR 0xD0, CHR 0xBF] @
     [CHR 0xD0, CHR 0xBD, CHR 0xD0, CHR 0xB0] @ ''</i>'' @ [CHR 0x0A, CHR 0x0A]"

subsection \<open>Exceptions, payloads, responses, effects\<close>

text \<open>
  The classes of exception that the program distinguishes. The retry decorator tests for
  \<^verbatim>\<open>asyncio.TimeoutError\<close>, \<^verbatim>\<open>ConnectionError\<close> and \<^verbatim>\<open>ValueError\<close>; \<open>KeyError\<close>,
  \<open>IndexError\<close> and \<open>AttributeError\<close> are what a dictionary lookup, \<^verbatim>\<open>choices[0]\<close> and a
  missing attribute raise; \<open>RetryError\<close> is what the decorator raises when it gives up,
  wrapping the last failure; \<open>OtherException\<close> is any exception that is an instance of
  none of these.
\<close>

datatype exn =
    TimeoutError string
  | ConnectionError string
  | ValueError string
  | KeyError string
  | IndexError
  | AttributeError string
  | RetryError exn
  | OtherException string

datatype http_exception = HTTPException (status_code: nat) (detail: "(string \<times> string) list")

text \<open>A chat message is the pair of its \<^verbatim>\<open>role\<close> and its \<^verbatim>\<open>content\<close>.\<close>

type_synonym message = "string \<times> string"

datatype payload = InputText string | Messages "message list"

text \<open>
  A provider response, as far as the program reads it: a chat completion with the
  \<^verbatim>\<open>message.content\<close> of each of its \<^verbatim>\<open>choices\<close>, or a Responses-API object with its
  \<^verbatim>\<open>output_text\<close>.
\<close>

datatype response = ChatCompletion "string list" | ResponsesObject string

datatype handler = H_mistral_request | H_openai_response_request | H_deepseek_request

datatype endpoint =
    Mistral_chat_complete
  | OpenAI_responses_create
  | OpenRouter_chat_completions_create

text \<open>
  The transport sessions an adapter can hold: the \<^verbatim>\<open>Mistral\<close> client, the
  \<^verbatim>\<open>httpx.AsyncClient\<close> made for the proxy, and the HTTP client an \<^verbatim>\<open>AsyncOpenAI\<close> object
  makes for itself when it is given none.
\<close>

datatype session = MistralClient | HttpxAsyncClient | AsyncOpenAIClient

text \<open>
  The effects: \<open>TryModel m\<close> is the entry into \<^verbatim>\<open>try_model\<close> (the prompt builder) for
  model \<open>m\<close>; \<open>Attempt h n\<close> the start of the \<open>n\<close>-th attempt of adapter \<open>h\<close>;
  \<open>SessionOpened\<close> and \<open>SessionReleased\<close> the construction and the closing of a client;
  \<open>TransportCall\<close> the awaited provider call with its key, model and payload;
  \<open>Sleep d\<close> the delay between two attempts; \<open>ResponseField m\<close> the application of the
  normalizer to the response for model \<open>m\<close>.
\<close>

datatype event =
    TryModel string
  | Attempt handler nat
  | SessionOpened session
  | SessionReleased session
  | TransportCall endpoint "string option" string payload
  | Sleep nat
  | ResponseField string

record world =
  MISTRAL_API_KEY :: "string option"
  OPENAI_API_KEY :: "string option"
  DEEPSEEK_API_KEY :: "string option"
  PROXY :: "string option"
  transport :: "endpoint \<Rightarrow> string option \<Rightarrow> string \<Rightarrow> payload \<Rightarrow> nat \<Rightarrow> exn + response"
  exn_str :: "exn \<Rightarrow> string"

text \<open>Python's truth test on an optional string: \<^verbatim>\<open>None\<close> and \<^verbatim>\<open>""\<close> are false.\<close>

definition truthy :: "string option \<Rightarrow> bool" where
  "truthy s = (case s of None \<Rightarrow> False | Some t \<Rightarrow> t \<noteq> [])"

subsection \<open>The retry decorator\<close>

text \<open>
  \<^verbatim>\<open>retry_if_exception_type((asyncio.TimeoutError, ConnectionError, ValueError))\<close>.
\<close>

definition retry_if_exception_type :: "exn \<Rightarrow> bool" where
  "retry_if_exception_type e =
     (case e of
        TimeoutError _ \<Rightarrow> True
      | ConnectionError _ \<Rightarrow> True
      | ValueError _ \<Rightarrow> True
      | _ \<Rightarrow> False)"

text \<open>
  \<^verbatim>\<open>@retry(stop=stop_after_attempt(stop), wait=wait_fixed(wait), retry=pred, before=...)\<close>
  around \<open>body\<close>, from attempt number \<open>n\<close> on. The \<^verbatim>\<open>before\<close> hook runs, then the body.
  A result is returned; an exception that \<open>pred\<close> rejects is raised again as it is; an
  exception that \<open>pred\<close> accepts ends in \<^verbatim>\<open>RetryError\<close> once \<open>stop\<close> attempts are made and
  otherwise in a delay of \<open>wait\<close> and the next attempt.
\<close>

function retry ::
  "nat \<Rightarrow> nat \<Rightarrow> (exn \<Rightarrow> bool) \<Rightarrow> handler \<Rightarrow> (nat \<Rightarrow> (exn + response) \<times> event list) \<Rightarrow> nat
     \<Rightarrow> (exn + response) \<times> event list" where
  "retry stop wait pred h body n =
     (case body n of
        (Inr r, ev) \<Rightarrow> (Inr r, Attempt h n # ev)
      | (Inl e, ev) \<Rightarrow>
          if \<not> pred e then (Inl e, Attempt h n # ev)
          else if stop \<le> n then (Inl (RetryError e), Attempt h n # ev)
          else (case retry stop wait pred h body (Suc n) of
                  (res, ev') \<Rightarrow> (res, Attempt h n # ev @ Sleep wait # ev')))"
  by pat_completeness auto
termination
  by (relation "measure (\<lambda>(stop, wait, pred, h, body, n). stop - n)") auto

declare retry.simps [simp del]

subsection \<open>Provider adapters\<close>

text \<open>
  The body of \<^verbatim>\<open>mistral_request\<close>: \<^verbatim>\<open>async with Mistral(...) as client\<close> opens the client,
  and leaves it released whether the call returns or raises.
\<close>

definition mistral_request_body ::
  "world \<Rightarrow> string option \<Rightarrow> string \<Rightarrow> payload \<Rightarrow> nat \<Rightarrow> (exn + response) \<times> event list" where
  "mistral_request_body w key model_name messages n =
     (transport w Mistral_chat_complete key model_name messages n,
      [SessionOpened MistralClient,
       TransportCall Mistral_chat_complete key model_name messages,
       SessionReleased MistralClient])"

definition mistral_request ::
  "world \<Rightarrow> string option \<Rightarrow> string \<Rightarrow> payload \<Rightarrow> (exn + response) \<times> event list" where
  "mistral_request w key model_name messages =
     retry 3 2 retry_if_exception_type H_mistral_request
       (mistral_request_body w key model_name messages) 1"

text \<open>
  The body of \<^verbatim>\<open>openai_response_request\<close>. With a proxy configured it creates an
  \<^verbatim>\<open>httpx.AsyncClient\<close>, hands it to \<^verbatim>\<open>AsyncOpenAI\<close> and closes it in the \<^verbatim>\<open>finally\<close>
  block. Without one, \<^verbatim>\<open>AsyncOpenAI\<close> makes its own HTTP client, and the \<^verbatim>\<open>finally\<close>
  block closes nothing.
\<close>

definition openai_response_request_body ::
  "world \<Rightarrow> string option \<Rightarrow> string \<Rightarrow> payload \<Rightarrow> nat \<Rightarrow> (exn + response) \<times> event list" where
  "openai_response_request_body w key model_name input_text n =
     (if truthy (PROXY w)
      then (transport w OpenAI_responses_create key model_name input_text n,
            [SessionOpened HttpxAsyncClient,
             TransportCall OpenAI_responses_create key model_name input_text,
             SessionReleased HttpxAsyncClient])
      else (transport w OpenAI_responses_create key model_name input_text n,
            [SessionOpened AsyncOpenAIClient,
             TransportCall OpenAI_responses_create key model_name input_text]))"

definition openai_response_request ::
  "world \<Rightarrow> string option \<Rightarrow> string \<Rightarrow> payload \<Rightarrow> (exn + response) \<times> event list" where
  "openai_response_request w key model_name input_text =
     retry 3 2 retry_if_exception_type H_openai_response_request
       (openai_response_request_body w key model_name input_text) 1"

text \<open>
  The body of \<^verbatim>\<open>deepseek_request\<close>: it constructs an \<^verbatim>\<open>AsyncOpenAI\<close> client for the
  OpenRouter base URL and awaits the call; there is no \<^verbatim>\<open>async with\<close>, no
  \<^verbatim>\<open>finally\<close> and no \<^verbatim>\<open>close\<close>.
\<close>

definition deepseek_request_body ::
  "world \<Rightarrow> string option \<Rightarrow> string \<Rightarrow> payload \<Rightarrow> nat \<Rightarrow> (exn + response) \<times> event list" where
  "deepseek_request_body w key model_name messages n =
     (transport w OpenRouter_chat_completions_create key model_name messages n,
      [SessionOpened AsyncOpenAIClient,
       TransportCall OpenRouter_chat_completions_create key model_name messages])"

definition deepseek_request ::
  "world \<Rightarrow> string option \<Rightarrow> string \<Rightarrow> payload \<Rightarrow> (exn + response) \<times> event list" where
  "deepseek_request w key model_name messages =
     retry 3 2 retry_if_exception_type H_deepseek_request
       (deepseek_request_body w key model_name messages) 1"

text \<open>Calling the function a \<^verbatim>\<open>handler\<close> entry of the registry refers to.\<close>

fun call_handler ::
  "world \<Rightarrow> handler \<Rightarrow> string option \<Rightarrow> string \<Rightarrow> payload \<Rightarrow> (exn + response) \<times> event list" where
  "call_handler w H_mistral_request key m p = mistral_request w key m p"
| "call_handler w H_openai_response_request key m p = openai_response_request w key m p"
| "call_handler w H_deepseek_request key m p = deepseek_request w key m p"

declare call_handler.simps [simp del]

text \<open>
  The effects of one attempt of an adapter, as its body lists them; they do not depend
  on the attempt number.
\<close>

definition attempt_events ::
  "world \<Rightarrow> handler \<Rightarrow> string option \<Rightarrow> string \<Rightarrow> payload \<Rightarrow> event list" where
  "attempt_events w h key m p =
     (case h of
        H_mistral_request \<Rightarrow>
          [SessionOpened MistralClient, TransportCall Mistral_chat_complete key m p,
           SessionReleased MistralClient]
      | H_openai_response_request \<Rightarrow>
          if truthy (PROXY w)
          then [SessionOpened HttpxAsyncClient, TransportCall OpenAI_responses_create key m p,
                SessionReleased HttpxAsyncClient]
          else [SessionOpened AsyncOpenAIClient, TransportCall OpenAI_responses_create key m p]
      | H_deepseek_request \<Rightarrow>
          [SessionOpened AsyncOpenAIClient,
           TransportCall OpenRouter_chat_completions_create key m p])"

text \<open>The endpoint each adapter calls.\<close>

fun endpoint_of :: "handler \<Rightarrow> endpoint" where
  "endpoint_of H_mistral_request = Mistral_chat_complete"
| "endpoint_of H_openai_response_request = OpenAI_responses_create"
| "endpoint_of H_deepseek_request = OpenRouter_chat_completions_create"

subsection \<open>Model registry and prompt templates\<close>

text \<open>The two \<^verbatim>\<open>response_field\<close> functions of the registry.\<close>

fun choices_0_message_content :: "response \<Rightarrow> exn + string" where
  "choices_0_message_content (ChatCompletion []) = Inl IndexError"
| "choices_0_message_content (ChatCompletion (c # cs)) = Inr c"
| "choices_0_message_content (ResponsesObject t) = Inl (AttributeError ''choices'')"

fun output_text :: "response \<Rightarrow> exn + string" where
  "output_text (ResponsesObject t) = Inr t"
| "output_text (ChatCompletion cs) = Inl (AttributeError ''output_text'')"

record model_config =
  api_key :: "string option"
  handler :: handler
  response_field :: "response \<Rightarrow> exn + string"

definition MODEL_CONFIG :: "world \<Rightarrow> string \<rightharpoonup> model_config" where
  "MODEL_CONFIG w =
     [''mistral-large-latest'' \<mapsto>
        \<lparr>api_key = MISTRAL_API_KEY w, handler = H_mistral_request,
         response_field = choices_0_message_content\<rparr>,
      ''gpt-4o-mini'' \<mapsto>
        \<lparr>api_key = OPENAI_API_KEY w, handler = H_openai_response_request,
         response_field = output_text\<rparr>,
      ''deepseek/deepseek-chat-v3-0324:free'' \<mapsto>
        \<lparr>api_key = DEEPSEEK_API_KEY w, handler = H_deepseek_request,
         response_field = choices_0_message_content\<rparr>]"

definition DEFAULT_MODEL_ORDER :: "string list" where
  "DEFAULT_MODEL_ORDER =
     [''mistral-large-latest'', ''deepseek/deepseek-chat-v3-0324:free'', ''gpt-4o-mini'']"

definition PROMPT_TEMPLATES :: "string \<rightharpoonup> string" where
  "PROMPT_TEMPLATES =
     [''voice'' \<mapsto> PROMPT_TEMPLATE_voice,
      ''csv'' \<mapsto> PROMPT_TEMPLATE_csv,
      ''text'' \<mapsto> PROMPT_TEMPLATE_text]"

text \<open>\<^verbatim>\<open>d.get(k, default)\<close>.\<close>

definition dict_get :: "('k \<rightharpoonup> 'v) \<Rightarrow> 'k \<Rightarrow> 'v \<Rightarrow> 'v" where
  "dict_get d k dflt = (case d k of None \<Rightarrow> dflt | Some v \<Rightarrow> v)"

subsection \<open>The prompt builder and one candidate attempt\<close>

text \<open>
  The request payload \<^verbatim>\<open>try_model\<close> builds: one string for the OpenAI handler, a system
  and a user message for the others.
\<close>

definition build_payload :: "handler \<Rightarrow> string \<Rightarrow> string \<Rightarrow> string \<Rightarrow> string \<Rightarrow> payload" where
  "build_payload h input_type query ctx history =
     (if h = H_openai_response_request
      then InputText (dict_get PROMPT_TEMPLATES input_type '''' @ ''\<newline>\<newline>'' @ LABEL_query @ query
                      @ LABEL_context @ ctx @ LABEL_history @ history)
      else Messages
             [(''system'', dict_get PROMPT_TEMPLATES input_type DEFAULT_SYSTEM_PROMPT),
              (''user'', LABEL_query @ query @ LABEL_context @ ctx @ LABEL_history @ history)])"

definition try_model ::
  "world \<Rightarrow> string \<Rightarrow> string option \<Rightarrow> handler \<Rightarrow> (response \<Rightarrow> exn + string) \<Rightarrow> string \<Rightarrow> string
     \<Rightarrow> string \<Rightarrow> string \<Rightarrow> (exn + string) \<times> event list" where
  "try_model w model key h get_response_text input_type query ctx history =
     (case call_handler w h key model (build_payload h input_type query ctx history) of
        (Inl e, ev) \<Rightarrow> (Inl e, TryModel model # ev)
      | (Inr resp, ev) \<Rightarrow>
          (get_response_text resp, TryModel model # ev @ [ResponseField model]))"

subsection \<open>The orchestrator\<close>

text \<open>
  The candidate order of \<^verbatim>\<open>get_ai\<close> (\<^verbatim>\<open>models_to_try\<close>), or the status-400 error for a
  model that passes the truth test and is no key of the registry.
\<close>

definition models_to_try :: "world \<Rightarrow> string option \<Rightarrow> http_exception + string list" where
  "models_to_try w model =
     (if truthy model
      then (case MODEL_CONFIG w (the model) of
              None \<Rightarrow>
                Inl (HTTPException 400
                       [(''status'', ''error''),
                        (''message'', UNSUPPORTED_PREFIX @ the model @ UNSUPPORTED_SUFFIX)])
            | Some _ \<Rightarrow>
                Inr (the model # filter (\<lambda>m. m \<noteq> the model) DEFAULT_MODEL_ORDER))
      else Inr DEFAULT_MODEL_ORDER)"

text \<open>The body of the \<^verbatim>\<open>try\<close> block of the loop, up to the value of \<^verbatim>\<open>response_text\<close>.\<close>

definition try_candidate ::
  "world \<Rightarrow> string \<Rightarrow> string \<Rightarrow> string \<Rightarrow> string \<Rightarrow> string \<Rightarrow> (exn + string) \<times> event list" where
  "try_candidate w query ctx history input_type current_model =
     (case MODEL_CONFIG w current_model of
        None \<Rightarrow> (Inl (KeyError current_model), [])
      | Some model_config \<Rightarrow>
          try_model w current_model (api_key model_config) (handler model_config)
            (response_field model_config) input_type query ctx history)"

definition fallback_annotation :: "string \<Rightarrow> string \<Rightarrow> string" where
  "fallback_annotation current_model original_model =
     FALLBACK_PREFIX @ current_model @ FALLBACK_MIDDLE @ original_model @ FALLBACK_SUFFIX"

text \<open>\<^verbatim>\<open>str(last_error)\<close>, where \<^verbatim>\<open>last_error\<close> starts as \<^verbatim>\<open>None\<close>.\<close>

definition str_last_error :: "world \<Rightarrow> exn option \<Rightarrow> string" where
  "str_last_error w last_error = (case last_error of None \<Rightarrow> ''None'' | Some e \<Rightarrow> exn_str w e)"

text \<open>
  The \<^verbatim>\<open>for\<close> loop of \<^verbatim>\<open>get_ai\<close> over the candidates still to try, and the status-500
  error after it.
\<close>

fun get_ai_loop ::
  "world \<Rightarrow> string \<Rightarrow> string \<Rightarrow> string \<Rightarrow> string \<Rightarrow> string option \<Rightarrow> exn option \<Rightarrow> string list
     \<Rightarrow> (http_exception + string) \<times> event list" where
  "get_ai_loop w query ctx history input_type original_model last_error [] =
     (Inl (HTTPException 500
             [(''status'', ''error''),
              (''message'', ALL_FAILED_MESSAGE),
              (''error'', str_last_error w last_error)]), [])"
| "get_ai_loop w query ctx history input_type original_model last_error (current_model # rest) =
     (case try_candidate w query ctx history input_type current_model of
        (Inr response_text, ev) \<Rightarrow>
          if truthy original_model \<and> Some current_model \<noteq> original_model
          then (Inr (fallback_annotation current_model (the original_model) @ response_text), ev)
          else (Inr response_text, ev)
      | (Inl e, ev) \<Rightarrow>
          (case get_ai_loop w query ctx history input_type original_model (Some e) rest of
             (res, ev') \<Rightarrow> (res, ev @ ev')))"

definition get_ai ::
  "world \<Rightarrow> string \<Rightarrow> string \<Rightarrow> string \<Rightarrow> string \<Rightarrow> string option
     \<Rightarrow> (http_exception + string) \<times> event list" where
  "get_ai w query ctx history input_type model =
     (case models_to_try w model of
        Inl err \<Rightarrow> (Inl err, [])
      | Inr candidates \<Rightarrow> get_ai_loop w query ctx history input_type model None candidates)"

subsection \<open>The route \<^verbatim>\<open>POST /v1/ai\<close>\<close>







subsection \<open>Reading the list of effects\<close>

text \<open>The models for which \<^verbatim>\<open>try_model\<close> was entered, in order.\<close>

fun tried :: "event list \<Rightarrow> string list" where
  "tried [] = []"
| "tried (TryModel m # ev) = m # tried ev"
| "tried (e # ev) = tried ev"

text \<open>The model named by each effect that names one.\<close>

fun models_of :: "event list \<Rightarrow> string list" where
  "models_of [] = []"
| "models_of (TryModel m # ev) = m # models_of ev"
| "models_of (TransportCall ep key m p # ev) = m # models_of ev"
| "models_of (ResponseField m # ev) = m # models_of ev"
| "models_of (e # ev) = models_of ev"

text \<open>The payloads of the transport calls made, in order.\<close>

fun transport_calls :: "event list \<Rightarrow> payload list" where
  "transport_calls [] = []"
| "transport_calls (TransportCall ep key m p # ev) = p # transport_calls ev"
| "transport_calls (e # ev) = transport_calls ev"

text \<open>The delays waited, in order.\<close>

fun sleeps :: "event list \<Rightarrow> nat list" where
  "sleeps [] = []"
| "sleeps (Sleep d # ev) = d # sleeps ev"
| "sleeps (e # ev) = sleeps ev"

text \<open>The sessions opened, and the sessions released, in order.\<close>

fun opened :: "event list \<Rightarrow> session list" where
  "opened [] = []"
| "opened (SessionOpened s # ev) = s # opened ev"
| "opened (e # ev) = opened ev"

fun released :: "event list \<Rightarrow> session list" where
  "released [] = []"
| "released (SessionReleased s # ev) = s # released ev"
| "released (e # ev) = released ev"

text \<open>The \<^verbatim>\<open>content\<close> strings a payload carries, and whether one of them contains \<open>s\<close>.\<close>

fun payload_contents :: "payload \<Rightarrow> string list" where
  "payload_contents (InputText t) = [t]"
| "payload_contents (Messages ms) = map snd ms"

definition payload_contains :: "payload \<Rightarrow> string \<Rightarrow> bool" where
  "payload_contains p s = list_ex (sublist s) (payload_contents p)"

subsection \<open>Stub providers\<close>

text \<open>
  Worlds for concrete runs: every key is set, no proxy, and the outcome of a transport
  call depends on the endpoint and the attempt number only.
\<close>

fun exn_text :: "exn \<Rightarrow> string" where
  "exn_text (TimeoutError s) = s"
| "exn_text (ConnectionError s) = s"
| "exn_text (ValueError s) = s"
| "exn_text (KeyError s) = s"
| "exn_text IndexError = ''list index out of range''"
| "exn_text (AttributeError s) = s"
| "exn_text (RetryError e) = ''RetryError['' @ exn_text e @ '']''"
| "exn_text (OtherException s) = s"

definition stub_world :: "(endpoint \<Rightarrow> nat \<Rightarrow> exn + response) \<Rightarrow> world" where
  "stub_world f =
     \<lparr>MISTRAL_API_KEY = Some ''mk'', OPENAI_API_KEY = Some ''ok'', DEEPSEEK_API_KEY = Some ''dk'',
      PROXY = None, transport = (\<lambda>ep key m p n. f ep n), exn_str = exn_text\<rparr>"

text \<open>Every provider answers at once.\<close>

fun all_up :: "endpoint \<Rightarrow> nat \<Rightarrow> exn + response" where
  "all_up OpenAI_responses_create n = Inr (ResponsesObject ''from openai'')"
| "all_up Mistral_chat_complete n = Inr (ChatCompletion [''from mistral''])"
| "all_up OpenRouter_chat_completions_create n = Inr (ChatCompletion [''from deepseek''])"

text \<open>Mistral is refused at once, the others answer.\<close>

fun mistral_down :: "endpoint \<Rightarrow> nat \<Rightarrow> exn + response" where
  "mistral_down Mistral_chat_complete n = Inl (OtherException ''401'')"
| "mistral_down ep n = all_up ep n"

text \<open>
  Mistral times out on every attempt, OpenRouter is refused at once, OpenAI answers with
  a connection failure on every attempt.
\<close>

fun all_down :: "endpoint \<Rightarrow> nat \<Rightarrow> exn + response" where
  "all_down Mistral_chat_complete n = Inl (TimeoutError ''timeout'')"
| "all_down OpenRouter_chat_completions_create n = Inl (OtherException ''429'')"
| "all_down OpenAI_responses_create n = Inl (ConnectionError ''refused'')"

text \<open>
  The same answers from every endpoint, one per attempt, in order; a refusal once the list
  is used up.
\<close>

definition script :: "(exn + response) list \<Rightarrow> endpoint \<Rightarrow> nat \<Rightarrow> exn + response" where
  "script xs ep n =
     (case drop (n - 1) xs of [] \<Rightarrow> Inl (OtherException ''no answer'') | x # _ \<Rightarrow> x)"


section \<open>Auxiliary facts\<close>

subsection \<open>The retry decorator and the adapters\<close>

lemma retry_3_from_1:
  "retry 3 d pred h body 1 =
     (case body 1 of
        (Inr r, ev1) \<Rightarrow> (Inr r, Attempt h 1 # ev1)
      | (Inl e1, ev1) \<Rightarrow>
          if \<not> pred e1 then (Inl e1, Attempt h 1 # ev1)
          else (case body 2 of
                  (Inr r, ev2) \<Rightarrow> (Inr r, Attempt h 1 # ev1 @ Sleep d # Attempt h 2 # ev2)
                | (Inl e2, ev2) \<Rightarrow>
                    if \<not> pred e2
                    then (Inl e2, Attempt h 1 # ev1 @ Sleep d # Attempt h 2 # ev2)
                    else (case body 3 of
                            (Inr r, ev3) \<Rightarrow>
                              (Inr r, Attempt h 1 # ev1 @ Sleep d # Attempt h 2 # ev2
                                        @ Sleep d # Attempt h 3 # ev3)
                          | (Inl e3, ev3) \<Rightarrow>
                              (Inl (if pred e3 then RetryError e3 else e3),
                               Attempt h 1 # ev1 @ Sleep d # Attempt h 2 # ev2
                                 @ Sleep d # Attempt h 3 # ev3))))"
proof -
  have r3: "retry 3 d pred h body 3 =
     (case body 3 of
        (Inr r, ev) \<Rightarrow> (Inr r, Attempt h 3 # ev)
      | (Inl e, ev) \<Rightarrow> (Inl (if pred e then RetryError e else e), Attempt h 3 # ev))"
    by (subst retry.simps) (simp split: prod.splits sum.splits)
  have r2: "retry 3 d pred h body 2 =
     (case body 2 of
        (Inr r, ev) \<Rightarrow> (Inr r, Attempt h 2 # ev)
      | (Inl e, ev) \<Rightarrow>
          if \<not> pred e then (Inl e, Attempt h 2 # ev)
          else (case retry 3 d pred h body 3 of
                  (res, ev') \<Rightarrow> (res, Attempt h 2 # ev @ Sleep d # ev')))"
    by (subst retry.simps) (simp split: prod.splits sum.splits)
  have r1: "retry 3 d pred h body 1 =
     (case body 1 of
        (Inr r, ev) \<Rightarrow> (Inr r, Attempt h 1 # ev)
      | (Inl e, ev) \<Rightarrow>
          if \<not> pred e then (Inl e, Attempt h 1 # ev)
          else (case retry 3 d pred h body 2 of
                  (res, ev') \<Rightarrow> (res, Attempt h 1 # ev @ Sleep d # ev')))"
    by (subst retry.simps) (simp split: prod.splits sum.splits add: numeral_2_eq_2)
  show ?thesis
    unfolding r1 r2 r3 by (simp split: prod.splits sum.splits)
qed

lemma tried_append: "tried (a @ b) = tried a @ tried b"
  by (induction a rule: tried.induct) simp_all

lemma models_of_append: "models_of (a @ b) = models_of a @ models_of b"
  by (induction a rule: models_of.induct) simp_all

lemma transport_calls_append: "transport_calls (a @ b) = transport_calls a @ transport_calls b"
  by (induction a rule: transport_calls.induct) simp_all

lemma sleeps_append: "sleeps (a @ b) = sleeps a @ sleeps b"
  by (induction a rule: sleeps.induct) simp_all

lemma opened_append: "opened (a @ b) = opened a @ opened b"
  by (induction a rule: opened.induct) simp_all

lemma released_append: "released (a @ b) = released a @ released b"
  by (induction a rule: released.induct) simp_all

lemmas reading_append =
  tried_append models_of_append transport_calls_append sleeps_append opened_append
  released_append

lemma call_handler_retry:
  "call_handler w h key m p =
     retry 3 2 retry_if_exception_type h
       (\<lambda>n. (transport w (endpoint_of h) key m p n, attempt_events w h key m p)) 1"
proof -
  have "mistral_request_body w key m p =
          (\<lambda>n. (transport w Mistral_chat_complete key m p n,
                 attempt_events w H_mistral_request key m p))"
       "openai_response_request_body w key m p =
          (\<lambda>n. (transport w OpenAI_responses_create key m p n,
                 attempt_events w H_openai_response_request key m p))"
       "deepseek_request_body w key m p =
          (\<lambda>n. (transport w OpenRouter_chat_completions_create key m p n,
                 attempt_events w H_deepseek_request key m p))"
    by (simp_all add: fun_eq_iff mistral_request_body_def openai_response_request_body_def
        deepseek_request_body_def attempt_events_def)
  then show ?thesis
    by (cases h)
      (simp_all add: call_handler.simps mistral_request_def openai_response_request_def
        deepseek_request_def)
qed

lemma retry_if_exception_type_iff:
  "retry_if_exception_type e \<longleftrightarrow>
     (\<exists>s. e = TimeoutError s \<or> e = ConnectionError s \<or> e = ValueError s)"
  by (cases e) (simp_all add: retry_if_exception_type_def)

lemma transport_calls_attempt_events:
  "length (transport_calls (attempt_events w h key m p)) = 1"
  by (cases h) (simp_all add: attempt_events_def)

lemma sleeps_attempt_events: "sleeps (attempt_events w h key m p) = []"
  by (cases h) (simp_all add: attempt_events_def)

lemma tried_attempt_events: "tried (attempt_events w h key m p) = []"
  by (cases h) (simp_all add: attempt_events_def)


subsection \<open>One candidate attempt\<close>

lemma tried_call_handler: "tried (snd (call_handler w h key m p)) = []"
  unfolding call_handler_retry retry_3_from_1
  by (simp add: reading_append tried_attempt_events split: sum.splits)


lemma try_candidate_Some:
  "MODEL_CONFIG w m = Some cfg \<Longrightarrow>
   try_candidate w q ctx hist it m =
     (let res = call_handler w (handler cfg) (api_key cfg) m
                  (build_payload (handler cfg) it q ctx hist)
      in case fst res of
           Inl e \<Rightarrow> (Inl e, TryModel m # snd res)
         | Inr resp \<Rightarrow> (response_field cfg resp, TryModel m # snd res @ [ResponseField m]))"
  by (simp add: try_candidate_def try_model_def Let_def split: prod.splits sum.splits)

lemma tried_try_candidate:
  "MODEL_CONFIG w m \<noteq> None \<Longrightarrow> tried (snd (try_candidate w q ctx hist it m)) = [m]"
  by (auto simp: try_candidate_Some Let_def reading_append tried_call_handler
      split: sum.splits)


subsection \<open>The fallback loop\<close>

lemma get_ai_loop_first_success:
  assumes "\<forall>m\<in>set pre. \<exists>e. fst (try_candidate w q ctx hist it m) = Inl e"
    and "fst (try_candidate w q ctx hist it c) = Inr t"
  shows "get_ai_loop w q ctx hist it orig last_error (pre @ c # post) =
           (Inr (if truthy orig \<and> Some c \<noteq> orig
                 then fallback_annotation c (the orig) @ t else t),
            concat (map (\<lambda>m. snd (try_candidate w q ctx hist it m)) (pre @ [c])))"
  using assms
proof (induction pre arbitrary: last_error)
  case Nil
  then show ?case by (cases "try_candidate w q ctx hist it c") simp
next
  case (Cons a pre)
  from Cons.prems obtain e where "fst (try_candidate w q ctx hist it a) = Inl e" by auto
  then obtain ev where a: "try_candidate w q ctx hist it a = (Inl e, ev)"
    by (cases "try_candidate w q ctx hist it a") simp
  from Cons.prems have "\<forall>m\<in>set pre. \<exists>e. fst (try_candidate w q ctx hist it m) = Inl e" by simp
  from Cons.IH [OF this Cons.prems(2)] show ?case by (simp add: a)
qed

lemma get_ai_loop_all_fail:
  assumes "\<forall>m\<in>set ms. \<exists>e. fst (try_candidate w q ctx hist it m) = Inl e"
  shows "get_ai_loop w q ctx hist it orig last_error ms =
           (Inl (HTTPException 500
                   [(''status'', ''error''),
                    (''message'', ALL_FAILED_MESSAGE),
                    (''error'', str_last_error w
                       (if ms = [] then last_error
                        else Some (projl (fst (try_candidate w q ctx hist it (last ms))))))]),
            concat (map (\<lambda>m. snd (try_candidate w q ctx hist it m)) ms))"
  using assms
proof (induction ms arbitrary: last_error)
  case Nil
  then show ?case by simp
next
  case (Cons a ms)
  from Cons.prems obtain e where "fst (try_candidate w q ctx hist it a) = Inl e" by auto
  then obtain ev where a: "try_candidate w q ctx hist it a = (Inl e, ev)"
    by (cases "try_candidate w q ctx hist it a") simp
  from Cons.prems have "\<forall>m\<in>set ms. \<exists>e. fst (try_candidate w q ctx hist it m) = Inl e" by simp
  from Cons.IH [OF this] show ?case by (simp add: a)
qed

lemma tried_concat:
  "\<forall>m\<in>set ms. MODEL_CONFIG w m \<noteq> None \<Longrightarrow>
   tried (concat (map (\<lambda>m. snd (try_candidate w q ctx hist it m)) ms)) = ms"
  by (induction ms) (simp_all add: reading_append tried_try_candidate)


subsection \<open>The registry and the candidate order\<close>

lemma MODEL_CONFIG_None_iff:
  "MODEL_CONFIG w m = None \<longleftrightarrow>
     m \<noteq> ''mistral-large-latest'' \<and> m \<noteq> ''gpt-4o-mini''
     \<and> m \<noteq> ''deepseek/deepseek-chat-v3-0324:free''"
  by (simp add: MODEL_CONFIG_def)

lemma distinct_DEFAULT_MODEL_ORDER: "distinct DEFAULT_MODEL_ORDER"
  by (simp add: DEFAULT_MODEL_ORDER_def)

lemma DEFAULT_MODEL_ORDER_registered: "m \<in> set DEFAULT_MODEL_ORDER \<Longrightarrow> MODEL_CONFIG w m \<noteq> None"
  by (auto simp: DEFAULT_MODEL_ORDER_def MODEL_CONFIG_None_iff)

lemma registered_nonempty: "MODEL_CONFIG w m \<noteq> None \<Longrightarrow> m \<noteq> []"
  by (auto simp: MODEL_CONFIG_None_iff)

lemma models_to_try_None: "models_to_try w None = Inr DEFAULT_MODEL_ORDER"
  by (simp add: models_to_try_def truthy_def)

lemma models_to_try_empty: "models_to_try w (Some []) = Inr DEFAULT_MODEL_ORDER"
  by (simp add: models_to_try_def truthy_def)

lemma models_to_try_registered:
  assumes "MODEL_CONFIG w m \<noteq> None"
  shows "models_to_try w (Some m) = Inr (m # filter (\<lambda>x. x \<noteq> m) DEFAULT_MODEL_ORDER)"
proof -
  from assms have "truthy (Some m)" by (simp add: truthy_def registered_nonempty)
  with assms show ?thesis by (auto simp: models_to_try_def)
qed

lemma models_to_try_unregistered:
  assumes "m \<noteq> []" and "MODEL_CONFIG w m = None"
  shows "models_to_try w (Some m) =
           Inl (HTTPException 400
                  [(''status'', ''error''),
                   (''message'', UNSUPPORTED_PREFIX @ m @ UNSUPPORTED_SUFFIX)])"
  using assms by (simp add: models_to_try_def truthy_def)

lemma models_to_try_Inr:
  assumes "models_to_try w model = Inr ms"
  shows "distinct ms \<and> (\<forall>m\<in>set ms. MODEL_CONFIG w m \<noteq> None) \<and> ms \<noteq> []"
proof (cases "truthy model")
  case False
  with assms have "ms = DEFAULT_MODEL_ORDER" by (simp add: models_to_try_def)
  then show ?thesis
    using distinct_DEFAULT_MODEL_ORDER DEFAULT_MODEL_ORDER_registered [of _ w]
    by (auto simp: DEFAULT_MODEL_ORDER_def)
next
  case True
  then obtain m where m: "model = Some m" by (cases model) (simp_all add: truthy_def)
  from assms True m have reg: "MODEL_CONFIG w m \<noteq> None"
    by (auto simp: models_to_try_def split: option.splits)
  with assms m have "ms = m # filter (\<lambda>x. x \<noteq> m) DEFAULT_MODEL_ORDER"
    by (simp add: models_to_try_registered)
  then show ?thesis
    using reg distinct_DEFAULT_MODEL_ORDER DEFAULT_MODEL_ORDER_registered [of _ w] by auto
qed


lemma get_ai_first_success:
  assumes "models_to_try w model = Inr (pre @ c # post)"
    and "\<forall>m\<in>set pre. \<exists>e. fst (try_candidate w q ctx hist it m) = Inl e"
    and "fst (try_candidate w q ctx hist it c) = Inr t"
  shows "get_ai w q ctx hist it model =
           (Inr (if truthy model \<and> Some c \<noteq> model
                 then fallback_annotation c (the model) @ t else t),
            concat (map (\<lambda>m. snd (try_candidate w q ctx hist it m)) (pre @ [c])))"
  using get_ai_loop_first_success [OF assms(2,3)] assms(1) by (simp add: get_ai_def)

lemma get_ai_all_fail:
  assumes "models_to_try w model = Inr ms"
    and "\<forall>m\<in>set ms. \<exists>e. fst (try_candidate w q ctx hist it m) = Inl e"
  shows "get_ai w q ctx hist it model =
           (Inl (HTTPException 500
                   [(''status'', ''error''),
                    (''message'', ALL_FAILED_MESSAGE),
                    (''error'', exn_str w
                       (projl (fst (try_candidate w q ctx hist it (last ms)))))]),
            concat (map (\<lambda>m. snd (try_candidate w q ctx hist it m)) ms))"
proof -
  from models_to_try_Inr [OF assms(1)] have "ms \<noteq> []" by simp
  with get_ai_loop_all_fail [OF assms(2)] assms(1) show ?thesis
    by (simp add: get_ai_def str_last_error_def)
qed

subsection \<open>Results of the adapters and of the stub providers\<close>

lemma fst_call_handler:
  "fst (call_handler w h key m p) =
     (case transport w (endpoint_of h) key m p 1 of
        Inr r \<Rightarrow> Inr r
      | Inl e1 \<Rightarrow>
          if \<not> retry_if_exception_type e1 then Inl e1
          else (case transport w (endpoint_of h) key m p 2 of
                  Inr r \<Rightarrow> Inr r
                | Inl e2 \<Rightarrow>
                    if \<not> retry_if_exception_type e2 then Inl e2
                    else (case transport w (endpoint_of h) key m p 3 of
                            Inr r \<Rightarrow> Inr r
                          | Inl e3 \<Rightarrow>
                              Inl (if retry_if_exception_type e3 then RetryError e3 else e3))))"
  unfolding call_handler_retry retry_3_from_1 by (simp split: sum.splits)

lemma fst_try_candidate:
  assumes "MODEL_CONFIG w m = Some cfg"
    and "handler cfg = h" and "api_key cfg = key" and "response_field cfg = rf"
  shows "fst (try_candidate w q ctx hist it m) =
     (case fst (call_handler w h key m (build_payload h it q ctx hist)) of
        Inl e \<Rightarrow> Inl e
      | Inr resp \<Rightarrow> rf resp)"
  using assms(2-) by (auto simp: try_candidate_Some [OF assms(1)] Let_def split: sum.splits)

lemma MODEL_CONFIG_mistral:
  "MODEL_CONFIG w ''mistral-large-latest'' =
     Some \<lparr>api_key = MISTRAL_API_KEY w, handler = H_mistral_request,
           response_field = choices_0_message_content\<rparr>"
  by (simp add: MODEL_CONFIG_def)

lemma MODEL_CONFIG_gpt:
  "MODEL_CONFIG w ''gpt-4o-mini'' =
     Some \<lparr>api_key = OPENAI_API_KEY w, handler = H_openai_response_request,
           response_field = output_text\<rparr>"
  by (simp add: MODEL_CONFIG_def)

lemma MODEL_CONFIG_deepseek:
  "MODEL_CONFIG w ''deepseek/deepseek-chat-v3-0324:free'' =
     Some \<lparr>api_key = DEEPSEEK_API_KEY w, handler = H_deepseek_request,
           response_field = choices_0_message_content\<rparr>"
  by (simp add: MODEL_CONFIG_def)

lemmas MODEL_CONFIG_entries = MODEL_CONFIG_mistral MODEL_CONFIG_gpt MODEL_CONFIG_deepseek

lemma transport_stub_world: "transport (stub_world f) ep key m p n = f ep n"
  by (simp add: stub_world_def)

lemma exn_str_stub_world: "exn_str (stub_world f) = exn_text"
  by (simp add: stub_world_def)

lemma try_candidate_stub_mistral:
  "fst (try_candidate (stub_world f) q ctx hist it ''mistral-large-latest'') =
     (case fst (call_handler (stub_world f) H_mistral_request (Some ''mk'')
                  ''mistral-large-latest'' (build_payload H_mistral_request it q ctx hist)) of
        Inl e \<Rightarrow> Inl e
      | Inr resp \<Rightarrow> choices_0_message_content resp)"
  by (rule fst_try_candidate [OF MODEL_CONFIG_mistral]) (simp_all add: stub_world_def)

lemma try_candidate_stub_deepseek:
  "fst (try_candidate (stub_world f) q ctx hist it ''deepseek/deepseek-chat-v3-0324:free'') =
     (case fst (call_handler (stub_world f) H_deepseek_request (Some ''dk'')
                  ''deepseek/deepseek-chat-v3-0324:free''
                  (build_payload H_deepseek_request it q ctx hist)) of
        Inl e \<Rightarrow> Inl e
      | Inr resp \<Rightarrow> choices_0_message_content resp)"
  by (rule fst_try_candidate [OF MODEL_CONFIG_deepseek]) (simp_all add: stub_world_def)

lemma try_candidate_stub_gpt:
  "fst (try_candidate (stub_world f) q ctx hist it ''gpt-4o-mini'') =
     (case fst (call_handler (stub_world f) H_openai_response_request (Some ''ok'')
                  ''gpt-4o-mini'' (build_payload H_openai_response_request it q ctx hist)) of
        Inl e \<Rightarrow> Inl e
      | Inr resp \<Rightarrow> output_text resp)"
  by (rule fst_try_candidate [OF MODEL_CONFIG_gpt]) (simp_all add: stub_world_def)

lemmas try_candidate_stub =
  try_candidate_stub_mistral try_candidate_stub_deepseek try_candidate_stub_gpt
  fst_call_handler transport_stub_world retry_if_exception_type_def

lemma all_up_mistral:
  "fst (try_candidate (stub_world all_up) q ctx hist it ''mistral-large-latest'') =
     Inr ''from mistral''"
  by (simp add: try_candidate_stub)

lemma mistral_down_mistral:
  "fst (try_candidate (stub_world mistral_down) q ctx hist it ''mistral-large-latest'') =
     Inl (OtherException ''401'')"
  by (simp add: try_candidate_stub)

lemma mistral_down_deepseek:
  "fst (try_candidate (stub_world mistral_down) q ctx hist it
          ''deepseek/deepseek-chat-v3-0324:free'') = Inr ''from deepseek''"
  by (simp add: try_candidate_stub)

lemma all_down_mistral:
  "fst (try_candidate (stub_world all_down) q ctx hist it ''mistral-large-latest'') =
     Inl (RetryError (TimeoutError ''timeout''))"
  by (simp add: try_candidate_stub)

lemma all_down_deepseek:
  "fst (try_candidate (stub_world all_down) q ctx hist it
          ''deepseek/deepseek-chat-v3-0324:free'') = Inl (OtherException ''429'')"
  by (simp add: try_candidate_stub)

lemma all_down_gpt:
  "fst (try_candidate (stub_world all_down) q ctx hist it ''gpt-4o-mini'') =
     Inl (RetryError (ConnectionError ''refused''))"
  by (simp add: try_candidate_stub)

lemma get_ai_loop_empty_model:
  "get_ai_loop w q ctx hist it (Some []) last_error ms =
   get_ai_loop w q ctx hist it None last_error ms"
  by (induction ms arbitrary: last_error) (simp_all add: truthy_def split: prod.splits sum.splits)

lemma get_ai_loop_status:
  "get_ai_loop w q ctx hist it orig last_error ms = (Inl err, ev) \<Longrightarrow> status_code err = 500"
proof (induction ms arbitrary: last_error ev)
  case Nil
  then show ?case by auto
next
  case (Cons a ms)
  then show ?case by (auto split: prod.splits sum.splits if_splits)
qed

subsection \<open>Sessions\<close>

lemma opened_attempt_events: "length (opened (attempt_events w h key m p)) = 1"
  by (cases h) (simp_all add: attempt_events_def)

lemma released_attempt_events:
  "released (attempt_events w h key m p) =
     (case h of
        H_mistral_request \<Rightarrow> [MistralClient]
      | H_openai_response_request \<Rightarrow> if truthy (PROXY w) then [HttpxAsyncClient] else []
      | H_deepseek_request \<Rightarrow> [])"
  by (cases h) (simp_all add: attempt_events_def)

lemma opened_attempt_events_mistral:
  "opened (attempt_events w H_mistral_request key m p) = [MistralClient]"
  by (simp add: attempt_events_def)

lemma mistral_request_releases:
  "opened (snd (mistral_request w key m p)) = released (snd (mistral_request w key m p))"
  unfolding call_handler.simps(1) [symmetric] call_handler_retry retry_3_from_1
  by (simp add: reading_append released_attempt_events opened_attempt_events_mistral
      split: sum.splits)

lemma openai_response_request_releases_with_proxy:
  assumes "truthy (PROXY w)"
  shows "opened (snd (openai_response_request w key m p)) =
         released (snd (openai_response_request w key m p))"
proof -
  from assms have "opened (attempt_events w H_openai_response_request key m p) =
      [HttpxAsyncClient]"
    by (simp add: attempt_events_def)
  with assms show ?thesis
    unfolding call_handler.simps(2) [symmetric] call_handler_retry retry_3_from_1
    by (simp add: reading_append released_attempt_events split: sum.splits)
qed

lemma openai_response_request_leaks_without_proxy:
  assumes "\<not> truthy (PROXY w)"
  shows "released (snd (openai_response_request w key m p)) = []"
  using assms
  unfolding call_handler.simps(2) [symmetric] call_handler_retry retry_3_from_1
  by (simp add: reading_append released_attempt_events split: sum.splits)

lemma opened_attempt_events_nonempty: "opened (attempt_events w h key m p) \<noteq> []"
  by (cases h) (simp_all add: attempt_events_def)

subsection \<open>The prompt builder\<close>

lemma build_payload_voice_contains:
  "payload_contains (build_payload h ''voice'' q ctx hist) q
   \<and> payload_contains (build_payload h ''voice'' q ctx hist) ctx
   \<and> payload_contains (build_payload h ''voice'' q ctx hist) hist
   \<and> payload_contains (build_payload h ''voice'' q ctx hist) PROMPT_TEMPLATE_voice"
proof -
  have tpl: "dict_get PROMPT_TEMPLATES ''voice'' d = PROMPT_TEMPLATE_voice" for d
    by (simp add: dict_get_def PROMPT_TEMPLATES_def)
  define user where "user = LABEL_query @ q @ LABEL_context @ ctx @ LABEL_history @ hist"
  have user: "sublist q user" "sublist ctx user" "sublist hist user"
    using sublist_appendI [of q LABEL_query "LABEL_context @ ctx @ LABEL_history @ hist"]
      sublist_appendI [of ctx "LABEL_query @ q @ LABEL_context" "LABEL_history @ hist"]
      sublist_appendI [of hist "LABEL_query @ q @ LABEL_context @ ctx @ LABEL_history" "[]"]
    by (simp_all add: user_def)
  have pre: "sublist s user \<Longrightarrow> sublist s (PROMPT_TEMPLATE_voice @ ''\<newline>\<newline>'' @ user)" for s
    using sublist_append by blast
  have "sublist PROMPT_TEMPLATE_voice (PROMPT_TEMPLATE_voice @ ''\<newline>\<newline>'' @ user)"
    using sublist_appendI [of PROMPT_TEMPLATE_voice "[]" "''\<newline>\<newline>'' @ user"] by simp
  note one = this pre [OF user(1)] pre [OF user(2)] pre [OF user(3)]
  show ?thesis
  proof (cases "h = H_openai_response_request")
    case True
    then have "build_payload h ''voice'' q ctx hist =
        InputText (PROMPT_TEMPLATE_voice @ ''\<newline>\<newline>'' @ user)"
      by (simp add: build_payload_def tpl user_def)
    with one show ?thesis by (simp add: payload_contains_def)
  next
    case False
    then have "build_payload h ''voice'' q ctx hist =
        Messages [(''system'', PROMPT_TEMPLATE_voice), (''user'', user)]"
      by (simp add: build_payload_def tpl user_def)
    with user show ?thesis by (simp add: payload_contains_def)
  qed
qed


lemma script_1: "script (x # xs) ep 1 = x" "script (x # xs) ep (Suc 0) = x"
  by (simp_all add: script_def)

lemma script_2: "script (x # y # xs) ep 2 = y"
  by (simp add: script_def)

lemma script_3: "script (x # y # z # xs) ep 3 = z"
  by (simp add: script_def numeral_3_eq_3)

subsection \<open>The empty model and the route\<close>

lemma get_ai_empty_model:
  "get_ai w q ctx hist it (Some []) = get_ai w q ctx hist it None"
  by (simp add: get_ai_def models_to_try_empty models_to_try_None get_ai_loop_empty_model)

lemma get_ai_no_model_status:
  "fst (get_ai w q ctx hist it None) = Inl err \<Longrightarrow> status_code err = 500"
proof -
  assume "fst (get_ai w q ctx hist it None) = Inl err"
  then have "fst (get_ai_loop w q ctx hist it None None DEFAULT_MODEL_ORDER) = Inl err"
    by (simp add: get_ai_def models_to_try_None)
  then obtain ev where "get_ai_loop w q ctx hist it None None DEFAULT_MODEL_ORDER = (Inl err, ev)"
    by (cases "get_ai_loop w q ctx hist it None None DEFAULT_MODEL_ORDER") simp
  then show ?thesis by (rule get_ai_loop_status)
qed


section \<open>The claims\<close>

subsection \<open>C1: return at the first success, annotation on fallback\<close>



subsection \<open>C2: the candidate order\<close>



subsection \<open>C3: an unsupported model is rejected before any attempt\<close>

text \<open>
  Claim C3, amended. For every non-empty identifier \<open>m\<close> that is no key of the registry,
  \<^verbatim>\<open>get_ai\<close> called with \<open>m\<close> as the explicit model fails with status 400 and the body
  \<^verbatim>\<open>{status: "error", message: "<prefix><m><suffix>"}\<close>, and its list of effects is empty:
  no prompt was built, no adapter called, no normalizer applied.
\<close>

theorem unsupported_model_rejected:
  assumes "m \<noteq> []" and "MODEL_CONFIG w m = None"
  shows "get_ai w q ctx hist it (Some m) =
           (Inl (HTTPException 400
                   [(''status'', ''error''),
                    (''message'', UNSUPPORTED_PREFIX @ m @ UNSUPPORTED_SUFFIX)]), [])"
  by (simp add: get_ai_def models_to_try_unregistered [OF assms])

text \<open>
  C3 as amended, at the model \<^verbatim>\<open>gpt-5\<close>.
\<close>

theorem unsupported_model_rejected_witness:
  "''gpt-5'' \<noteq> [] \<and> MODEL_CONFIG (stub_world all_up) ''gpt-5'' = None
   \<and> get_ai (stub_world all_up) ''q'' ''c'' ''h'' ''text'' (Some ''gpt-5'') =
       (Inl (HTTPException 400
               [(''status'', ''error''),
                (''message'', UNSUPPORTED_PREFIX @ ''gpt-5'' @ UNSUPPORTED_SUFFIX)]), [])"
proof -
  have a: "''gpt-5'' \<noteq> []" by simp
  have b: "MODEL_CONFIG (stub_world all_up) ''gpt-5'' = None"
    by (simp add: MODEL_CONFIG_None_iff)
  show ?thesis
    using unsupported_model_rejected [OF a b, of "''q''" "''c''" "''h''" "''text''"] b by simp
qed

text \<open>
  Claim C3 as stated fails at the empty string: it is no key of the registry, yet
  \<^verbatim>\<open>get_ai\<close> called with it returns the answer of the first default candidate instead of
  the status-400 error.
\<close>

theorem empty_model_not_rejected:
  "MODEL_CONFIG (stub_world all_up) [] = None
   \<and> fst (get_ai (stub_world all_up) ''q'' ''c'' ''h'' ''text'' (Some [])) = Inr ''from mistral''
   \<and> get_ai (stub_world all_up) ''q'' ''c'' ''h'' ''text'' (Some []) \<noteq>
       (Inl (HTTPException 400
               [(''status'', ''error''),
                (''message'', UNSUPPORTED_PREFIX @ [] @ UNSUPPORTED_SUFFIX)]), [])"
proof -
  have order: "models_to_try (stub_world all_up) (Some []) =
      Inr ([] @ ''mistral-large-latest''
           # [''deepseek/deepseek-chat-v3-0324:free'', ''gpt-4o-mini''])"
    by (simp add: models_to_try_empty DEFAULT_MODEL_ORDER_def)
  have fails: "\<forall>m\<in>set []. \<exists>e. fst (try_candidate (stub_world all_up) ''q'' ''c'' ''h'' ''text'' m)
      = Inl e"
    by simp
  have "fst (get_ai (stub_world all_up) ''q'' ''c'' ''h'' ''text'' (Some [])) =
      Inr ''from mistral''"
    using get_ai_first_success [OF order fails all_up_mistral] by (simp add: truthy_def)
  moreover have "MODEL_CONFIG (stub_world all_up) [] = None"
    by (simp add: MODEL_CONFIG_None_iff)
  ultimately show ?thesis by auto
qed

subsection \<open>C4: every candidate fails\<close>

text \<open>
  Claim C4. If every candidate of the order fails, \<^verbatim>\<open>get_ai\<close> fails with status 500 and
  the body \<^verbatim>\<open>{status: "error", message: <all failed>, error: str(cause)}\<close>, where
  \<open>cause\<close> is the failure of the last candidate of the order and of no other; the body has
  no further entry. Every candidate was attempted, in order. With no model supplied the
  last candidate is the third entry of the default order.
\<close>

theorem all_candidates_fail:
  assumes "models_to_try w model = Inr ms"
    and "\<forall>m\<in>set ms. \<exists>e. fst (try_candidate w q ctx hist it m) = Inl e"
    and "fst (try_candidate w q ctx hist it (last ms)) = Inl cause"
  shows "fst (get_ai w q ctx hist it model) =
           Inl (HTTPException 500
                  [(''status'', ''error''),
                   (''message'', ALL_FAILED_MESSAGE),
                   (''error'', exn_str w cause)])
       \<and> tried (snd (get_ai w q ctx hist it model)) = ms
       \<and> (model = None \<longrightarrow> ms = DEFAULT_MODEL_ORDER \<and> last ms = DEFAULT_MODEL_ORDER ! 2
             \<and> length DEFAULT_MODEL_ORDER = 3)"
proof -
  note run = get_ai_all_fail [OF assms(1,2)]
  from models_to_try_Inr [OF assms(1)] have reg: "\<forall>m\<in>set ms. MODEL_CONFIG w m \<noteq> None"
    by simp
  have "tried (snd (get_ai w q ctx hist it model)) = ms"
    unfolding run snd_conv by (rule tried_concat [OF reg])
  moreover have "model = None \<longrightarrow> ms = DEFAULT_MODEL_ORDER \<and> last ms = DEFAULT_MODEL_ORDER ! 2
      \<and> length DEFAULT_MODEL_ORDER = 3"
    using assms(1) by (auto simp: models_to_try_None DEFAULT_MODEL_ORDER_def)
  moreover have "fst (get_ai w q ctx hist it model) =
           Inl (HTTPException 500
                  [(''status'', ''error''),
                   (''message'', ALL_FAILED_MESSAGE),
                   (''error'', exn_str w cause)])"
    by (simp add: run assms(3))
  ultimately show ?thesis by blast
qed

text \<open>
  A run of C4: with every provider down and no model supplied, the error carried is the
  one of \<^verbatim>\<open>gpt-4o-mini\<close>, the third candidate.
\<close>

theorem all_candidates_fail_witness:
  "fst (try_candidate (stub_world all_down) ''q'' ''c'' ''h'' ''text'' ''mistral-large-latest'')
     = Inl (RetryError (TimeoutError ''timeout''))
   \<and> fst (try_candidate (stub_world all_down) ''q'' ''c'' ''h'' ''text''
          ''deepseek/deepseek-chat-v3-0324:free'') = Inl (OtherException ''429'')
   \<and> fst (try_candidate (stub_world all_down) ''q'' ''c'' ''h'' ''text'' ''gpt-4o-mini'')
     = Inl (RetryError (ConnectionError ''refused''))
   \<and> fst (get_ai (stub_world all_down) ''q'' ''c'' ''h'' ''text'' None) =
       Inl (HTTPException 500
              [(''status'', ''error''),
               (''message'', ALL_FAILED_MESSAGE),
               (''error'', ''RetryError[refused]'')])
   \<and> tried (snd (get_ai (stub_world all_down) ''q'' ''c'' ''h'' ''text'' None)) =
       [''mistral-large-latest'', ''deepseek/deepseek-chat-v3-0324:free'', ''gpt-4o-mini'']"
proof -
  have order: "models_to_try (stub_world all_down) None =
      Inr [''mistral-large-latest'', ''deepseek/deepseek-chat-v3-0324:free'', ''gpt-4o-mini'']"
    by (simp add: models_to_try_None DEFAULT_MODEL_ORDER_def)
  have fails: "\<forall>m\<in>set [''mistral-large-latest'', ''deepseek/deepseek-chat-v3-0324:free'',
        ''gpt-4o-mini''].
      \<exists>e. fst (try_candidate (stub_world all_down) ''q'' ''c'' ''h'' ''text'' m) = Inl e"
    by (simp add: all_down_mistral all_down_deepseek all_down_gpt)
  have last: "fst (try_candidate (stub_world all_down) ''q'' ''c'' ''h'' ''text''
      (last [''mistral-large-latest'', ''deepseek/deepseek-chat-v3-0324:free'',
         ''gpt-4o-mini''])) = Inl (RetryError (ConnectionError ''refused''))"
    by (simp add: all_down_gpt)
  note run = all_candidates_fail [OF order fails last]
  from run have "fst (get_ai (stub_world all_down) ''q'' ''c'' ''h'' ''text'' None) =
       Inl (HTTPException 500
              [(''status'', ''error''),
               (''message'', ALL_FAILED_MESSAGE),
               (''error'', exn_str (stub_world all_down)
                  (RetryError (ConnectionError ''refused'')))])"
    by blast
  moreover from run have "tried (snd (get_ai (stub_world all_down) ''q'' ''c'' ''h'' ''text'' None))
      = [''mistral-large-latest'', ''deepseek/deepseek-chat-v3-0324:free'', ''gpt-4o-mini'']"
    by blast
  ultimately show ?thesis
    by (simp add: all_down_mistral all_down_deepseek all_down_gpt exn_str_stub_world)
qed

subsection \<open>C5: the retry policy of the adapters\<close>

text \<open>
  Claim C5. For each adapter \<open>h\<close>, with \<open>out n\<close> the outcome of the transport call of
  attempt \<open>n\<close>: at most 3 transport calls are made, with a delay of 2 between
  consecutive ones; a failure is retried exactly when it is a timeout, a connection
  error or a value error; any other failure is the adapter's failure at once, after 1, 2
  or 3 calls; a success on the first, second or third attempt is the adapter's result;
  and three retryable failures give one failure, the \<^verbatim>\<open>RetryError\<close> of the third.
\<close>

theorem adapter_retry_policy:
  "let out = transport w (endpoint_of h) key m p;
       res = call_handler w h key m p;
       calls = length (transport_calls (snd res))
   in calls \<le> 3 \<and> sleeps (snd res) = replicate (calls - 1) 2
      \<and> (retry_if_exception_type e \<longleftrightarrow>
           (\<exists>s. e = TimeoutError s \<or> e = ConnectionError s \<or> e = ValueError s))
      \<and> (out 1 = Inr r \<longrightarrow> fst res = Inr r \<and> calls = 1)
      \<and> (out 1 = Inl e1 \<and> \<not> retry_if_exception_type e1 \<longrightarrow> fst res = Inl e1 \<and> calls = 1)
      \<and> (out 1 = Inl e1 \<and> retry_if_exception_type e1 \<and> out 2 = Inr r
           \<longrightarrow> fst res = Inr r \<and> calls = 2)
      \<and> (out 1 = Inl e1 \<and> retry_if_exception_type e1 \<and> out 2 = Inl e2
           \<and> \<not> retry_if_exception_type e2 \<longrightarrow> fst res = Inl e2 \<and> calls = 2)
      \<and> (out 1 = Inl e1 \<and> retry_if_exception_type e1 \<and> out 2 = Inl e2
           \<and> retry_if_exception_type e2 \<and> out 3 = Inr r \<longrightarrow> fst res = Inr r \<and> calls = 3)
      \<and> (out 1 = Inl e1 \<and> retry_if_exception_type e1 \<and> out 2 = Inl e2
           \<and> retry_if_exception_type e2 \<and> out 3 = Inl e3 \<and> \<not> retry_if_exception_type e3
           \<longrightarrow> fst res = Inl e3 \<and> calls = 3)
      \<and> (out 1 = Inl e1 \<and> retry_if_exception_type e1 \<and> out 2 = Inl e2
           \<and> retry_if_exception_type e2 \<and> out 3 = Inl e3 \<and> retry_if_exception_type e3
           \<longrightarrow> fst res = Inl (RetryError e3) \<and> calls = 3)"
  unfolding Let_def call_handler_retry retry_3_from_1
  by (simp add: retry_if_exception_type_iff [symmetric] reading_append
      transport_calls_attempt_events sleeps_attempt_events numeral_3_eq_3
      split: sum.splits)

text \<open>
  Runs of C5, one for each of its seven cases, over the three adapters.
\<close>

theorem adapter_retry_policy_witness:
  "fst (call_handler (stub_world (script [Inr (ChatCompletion [''first''])]))
          H_mistral_request None ''m'' (Messages [])) = Inr (ChatCompletion [''first''])
   \<and> fst (call_handler (stub_world (script [Inl (OtherException ''401'')]))
          H_mistral_request None ''m'' (Messages [])) = Inl (OtherException ''401'')
   \<and> fst (call_handler
            (stub_world (script [Inl (TimeoutError ''t1''), Inr (ResponsesObject ''second'')]))
          H_openai_response_request None ''m'' (InputText [])) = Inr (ResponsesObject ''second'')
   \<and> fst (call_handler
            (stub_world (script [Inl (TimeoutError ''t1''), Inl (OtherException ''401'')]))
          H_openai_response_request None ''m'' (InputText [])) = Inl (OtherException ''401'')
   \<and> fst (call_handler
            (stub_world (script [Inl (TimeoutError ''t1''), Inl (ConnectionError ''c2''),
                                 Inr (ChatCompletion [''third''])]))
          H_deepseek_request None ''m'' (Messages [])) = Inr (ChatCompletion [''third''])
   \<and> fst (call_handler
            (stub_world (script [Inl (TimeoutError ''t1''), Inl (ConnectionError ''c2''),
                                 Inl (OtherException ''401'')]))
          H_deepseek_request None ''m'' (Messages [])) = Inl (OtherException ''401'')
   \<and> fst (call_handler
            (stub_world (script [Inl (ValueError ''v1''), Inl (ValueError ''v2''),
                                 Inl (ValueError ''v3'')]))
          H_deepseek_request None ''m'' (Messages [])) = Inl (RetryError (ValueError ''v3''))
   \<and> sleeps (snd (call_handler
            (stub_world (script [Inl (ValueError ''v1''), Inl (ValueError ''v2''),
                                 Inl (ValueError ''v3'')]))
          H_deepseek_request None ''m'' (Messages []))) = [2, 2]"
proof -
  have timeout: "retry_if_exception_type (TimeoutError s)"
    and conn: "retry_if_exception_type (ConnectionError s)"
    and val: "retry_if_exception_type (ValueError s)"
    and other: "\<not> retry_if_exception_type (OtherException s)" for s
    by (simp_all add: retry_if_exception_type_def)
  note sc = transport_stub_world script_1 script_2 script_3 Let_def timeout conn val other
  have 1: "fst (call_handler (stub_world (script [Inr (ChatCompletion [''first''])]))
          H_mistral_request None ''m'' (Messages [])) = Inr (ChatCompletion [''first''])"
    using adapter_retry_policy [where w = "stub_world (script [Inr (ChatCompletion [''first''])])"
        and h = H_mistral_request and key = None and m = "''m''" and p = "Messages []"
        and r = "ChatCompletion [''first'']"
        and ?e1.0 = IndexError
        and ?e2.0 = IndexError
        and ?e3.0 = IndexError
        and e = IndexError]
    by (simp add: sc)
  have 2: "fst (call_handler (stub_world (script [Inl (OtherException ''401'')]))
          H_mistral_request None ''m'' (Messages [])) = Inl (OtherException ''401'')"
    using adapter_retry_policy [where w = "stub_world (script [Inl (OtherException ''401'')])"
        and h = H_mistral_request and key = None and m = "''m''" and p = "Messages []"
        and ?e1.0 = "OtherException ''401''"
        and r = "ChatCompletion []"
        and ?e2.0 = IndexError
        and ?e3.0 = IndexError
        and e = IndexError]
    by (simp add: sc)
  have 3: "fst (call_handler
            (stub_world (script [Inl (TimeoutError ''t1''), Inr (ResponsesObject ''second'')]))
          H_openai_response_request None ''m'' (InputText [])) = Inr (ResponsesObject ''second'')"
    using adapter_retry_policy [where
        w = "stub_world (script [Inl (TimeoutError ''t1''), Inr (ResponsesObject ''second'')])"
        and h = H_openai_response_request and key = None and m = "''m''" and p = "InputText []"
        and ?e1.0 = "TimeoutError ''t1''" and r = "ResponsesObject ''second''"
        and ?e2.0 = IndexError
        and ?e3.0 = IndexError
        and e = IndexError]
    by (simp add: sc)
  have 4: "fst (call_handler
            (stub_world (script [Inl (TimeoutError ''t1''), Inl (OtherException ''401'')]))
          H_openai_response_request None ''m'' (InputText [])) = Inl (OtherException ''401'')"
    using adapter_retry_policy [where
        w = "stub_world (script [Inl (TimeoutError ''t1''), Inl (OtherException ''401'')])"
        and h = H_openai_response_request and key = None and m = "''m''" and p = "InputText []"
        and ?e1.0 = "TimeoutError ''t1''" and ?e2.0 = "OtherException ''401''"
        and r = "ChatCompletion []"
        and ?e3.0 = IndexError
        and e = IndexError]
    by (simp add: sc)
  have 5: "fst (call_handler
            (stub_world (script [Inl (TimeoutError ''t1''), Inl (ConnectionError ''c2''),
                                 Inr (ChatCompletion [''third''])]))
          H_deepseek_request None ''m'' (Messages [])) = Inr (ChatCompletion [''third''])"
    using adapter_retry_policy [where
        w = "stub_world (script [Inl (TimeoutError ''t1''), Inl (ConnectionError ''c2''),
                                 Inr (ChatCompletion [''third''])])"
        and h = H_deepseek_request and key = None and m = "''m''" and p = "Messages []"
        and ?e1.0 = "TimeoutError ''t1''" and ?e2.0 = "ConnectionError ''c2''"
        and r = "ChatCompletion [''third'']"
        and ?e3.0 = IndexError
        and e = IndexError]
    by (simp add: sc)
  have 6: "fst (call_handler
            (stub_world (script [Inl (TimeoutError ''t1''), Inl (ConnectionError ''c2''),
                                 Inl (OtherException ''401'')]))
          H_deepseek_request None ''m'' (Messages [])) = Inl (OtherException ''401'')"
    using adapter_retry_policy [where
        w = "stub_world (script [Inl (TimeoutError ''t1''), Inl (ConnectionError ''c2''),
                                 Inl (OtherException ''401'')])"
        and h = H_deepseek_request and key = None and m = "''m''" and p = "Messages []"
        and ?e1.0 = "TimeoutError ''t1''" and ?e2.0 = "ConnectionError ''c2''"
        and ?e3.0 = "OtherException ''401''"
        and r = "ChatCompletion []"
        and e = IndexError]
    by (simp add: sc)
  note all3 = adapter_retry_policy [where
        w = "stub_world (script [Inl (ValueError ''v1''), Inl (ValueError ''v2''),
                                 Inl (ValueError ''v3'')])"
        and h = H_deepseek_request and key = None and m = "''m''" and p = "Messages []"
        and ?e1.0 = "ValueError ''v1''" and ?e2.0 = "ValueError ''v2''"
        and ?e3.0 = "ValueError ''v3''" and r = "ChatCompletion []" and e = IndexError]
  from all3 have 7: "fst (call_handler
            (stub_world (script [Inl (ValueError ''v1''), Inl (ValueError ''v2''),
                                 Inl (ValueError ''v3'')]))
          H_deepseek_request None ''m'' (Messages [])) = Inl (RetryError (ValueError ''v3''))"
    and n: "length (transport_calls (snd (call_handler
            (stub_world (script [Inl (ValueError ''v1''), Inl (ValueError ''v2''),
                                 Inl (ValueError ''v3'')]))
          H_deepseek_request None ''m'' (Messages [])))) = 3"
    by (simp_all add: sc)
  from all3 have "sleeps (snd (call_handler
            (stub_world (script [Inl (ValueError ''v1''), Inl (ValueError ''v2''),
                                 Inl (ValueError ''v3'')]))
          H_deepseek_request None ''m'' (Messages []))) =
      replicate (length (transport_calls (snd (call_handler
            (stub_world (script [Inl (ValueError ''v1''), Inl (ValueError ''v2''),
                                 Inl (ValueError ''v3'')]))
          H_deepseek_request None ''m'' (Messages [])))) - 1) 2"
    unfolding Let_def by blast
  then have 8: "sleeps (snd (call_handler
            (stub_world (script [Inl (ValueError ''v1''), Inl (ValueError ''v2''),
                                 Inl (ValueError ''v3'')]))
          H_deepseek_request None ''m'' (Messages []))) = [2, 2]"
    unfolding n by (simp add: numeral_2_eq_2)
  from 1 2 3 4 5 6 7 8 show ?thesis by blast
qed

subsection \<open>C6: the template for an unrecognized input category\<close>


subsection \<open>C7: the rendered prompt for a voice request\<close>

text \<open>
  Claim C7. For the category \<^verbatim>\<open>voice\<close>, query \<^verbatim>\<open>Q\<close>, context \<^verbatim>\<open>C\<close> and history \<^verbatim>\<open>H\<close>,
  the payload built for any adapter \<open>h\<close> has a content that contains \<^verbatim>\<open>Q\<close>, one that
  contains \<^verbatim>\<open>C\<close>, one that contains \<^verbatim>\<open>H\<close> and one that contains the voice template:
  the single string for the OpenAI adapter, the system and user messages for the other
  two.
\<close>

theorem prompt_voice_contains:
  "payload_contains (build_payload h ''voice'' ''Q'' ''C'' ''H'') ''Q''
   \<and> payload_contains (build_payload h ''voice'' ''Q'' ''C'' ''H'') ''C''
   \<and> payload_contains (build_payload h ''voice'' ''Q'' ''C'' ''H'') ''H''
   \<and> payload_contains (build_payload h ''voice'' ''Q'' ''C'' ''H'') PROMPT_TEMPLATE_voice
   \<and> PROMPT_TEMPLATES ''voice'' = Some PROMPT_TEMPLATE_voice
   \<and> build_payload H_openai_response_request ''voice'' ''Q'' ''C'' ''H'' =
       InputText (PROMPT_TEMPLATE_voice @ ''\<newline>\<newline>'' @ LABEL_query @ ''Q'' @ LABEL_context @ ''C''
                  @ LABEL_history @ ''H'')
   \<and> build_payload H_mistral_request ''voice'' ''Q'' ''C'' ''H'' =
       Messages [(''system'', PROMPT_TEMPLATE_voice),
                 (''user'', LABEL_query @ ''Q'' @ LABEL_context @ ''C'' @ LABEL_history @ ''H'')]
   \<and> build_payload H_deepseek_request ''voice'' ''Q'' ''C'' ''H'' =
       Messages [(''system'', PROMPT_TEMPLATE_voice),
                 (''user'', LABEL_query @ ''Q'' @ LABEL_context @ ''C'' @ LABEL_history @ ''H'')]"
proof -
  have tpl: "PROMPT_TEMPLATES ''voice'' = Some PROMPT_TEMPLATE_voice"
    by (simp add: PROMPT_TEMPLATES_def)
  then have "dict_get PROMPT_TEMPLATES ''voice'' d = PROMPT_TEMPLATE_voice" for d
    by (simp add: dict_get_def)
  then have "build_payload H_openai_response_request ''voice'' ''Q'' ''C'' ''H'' =
       InputText (PROMPT_TEMPLATE_voice @ ''\<newline>\<newline>'' @ LABEL_query @ ''Q'' @ LABEL_context @ ''C''
                  @ LABEL_history @ ''H'')"
    and "build_payload H_mistral_request ''voice'' ''Q'' ''C'' ''H'' =
       Messages [(''system'', PROMPT_TEMPLATE_voice),
                 (''user'', LABEL_query @ ''Q'' @ LABEL_context @ ''C'' @ LABEL_history @ ''H'')]"
    and "build_payload H_deepseek_request ''voice'' ''Q'' ''C'' ''H'' =
       Messages [(''system'', PROMPT_TEMPLATE_voice),
                 (''user'', LABEL_query @ ''Q'' @ LABEL_context @ ''C'' @ LABEL_history @ ''H'')]"
    by (simp_all add: build_payload_def)
  with tpl build_payload_voice_contains [of h "''Q''" "''C''" "''H''"] show ?thesis
    by blast
qed

subsection \<open>C8: release of the transport session\<close>

text \<open>
  Claim C8 fails for \<^verbatim>\<open>deepseek_request\<close>. Whatever the provider does, the adapter
  releases no session, although it opens one for each transport call it makes, and
  makes at least one.
\<close>

theorem deepseek_request_never_releases:
  "released (snd (deepseek_request w key m p)) = []
   \<and> length (opened (snd (deepseek_request w key m p))) =
       length (transport_calls (snd (deepseek_request w key m p)))
   \<and> opened (snd (deepseek_request w key m p)) \<noteq> []"
  unfolding call_handler.simps(3) [symmetric] call_handler_retry retry_3_from_1
  by (simp add: reading_append released_attempt_events opened_attempt_events
      opened_attempt_events_nonempty transport_calls_attempt_events split: sum.splits)

subsection \<open>C9: a request that omits the model\<close>



subsection \<open>C10: the empty string as model\<close>

text \<open>
  Claim C10. The empty string is no key of the registry, and \<^verbatim>\<open>get_ai\<close> called with it
  as the explicit model does exactly what it does with no model: the candidate order is
  the default order, the result is never a status-400 error, and the text of the first
  default candidate that succeeds is returned without annotation.
\<close>

theorem empty_model_is_unspecified:
  "MODEL_CONFIG w [] = None
   \<and> models_to_try w (Some []) = Inr DEFAULT_MODEL_ORDER
   \<and> get_ai w q ctx hist it (Some []) = get_ai w q ctx hist it None
   \<and> fst (get_ai w q ctx hist it (Some [])) \<noteq> Inl (HTTPException 400 body)
   \<and> (DEFAULT_MODEL_ORDER = pre @ c # post
        \<and> (\<forall>m\<in>set pre. \<exists>e. fst (try_candidate w q ctx hist it m) = Inl e)
        \<and> fst (try_candidate w q ctx hist it c) = Inr t
        \<longrightarrow> fst (get_ai w q ctx hist it (Some [])) = Inr t
            \<and> tried (snd (get_ai w q ctx hist it (Some []))) = pre @ [c])"
proof -
  have a: "MODEL_CONFIG w [] = None" by (simp add: MODEL_CONFIG_None_iff)
  have b: "fst (get_ai w q ctx hist it (Some [])) \<noteq> Inl (HTTPException 400 body)"
  proof
    assume "fst (get_ai w q ctx hist it (Some [])) = Inl (HTTPException 400 body)"
    then have "fst (get_ai w q ctx hist it None) = Inl (HTTPException 400 body)"
      by (simp add: get_ai_empty_model)
    from get_ai_no_model_status [OF this] show False by simp
  qed
  have c: "fst (get_ai w q ctx hist it (Some [])) = Inr t
      \<and> tried (snd (get_ai w q ctx hist it (Some []))) = pre @ [c]"
    if order: "DEFAULT_MODEL_ORDER = pre @ c # post"
      and fails: "\<forall>m\<in>set pre. \<exists>e. fst (try_candidate w q ctx hist it m) = Inl e"
      and ok: "fst (try_candidate w q ctx hist it c) = Inr t"
  proof -
    from order have o: "models_to_try w (Some []) = Inr (pre @ c # post)"
      by (simp add: models_to_try_empty)
    note run = get_ai_first_success [OF o fails ok]
    from models_to_try_Inr [OF o]
    have reg: "\<forall>m\<in>set (pre @ [c]). MODEL_CONFIG w m \<noteq> None" by simp
    have "tried (snd (get_ai w q ctx hist it (Some []))) = pre @ [c]"
      unfolding run snd_conv by (rule tried_concat [OF reg])
    moreover have "fst (get_ai w q ctx hist it (Some [])) = Inr t"
      by (simp add: run truthy_def)
    ultimately show ?thesis by simp
  qed
  from a b c show ?thesis
    by (simp add: models_to_try_empty get_ai_empty_model)
qed

text \<open>
  A run of C10: with the empty string as model and Mistral refused, DeepSeek's answer
  comes back unannotated.
\<close>

theorem empty_model_is_unspecified_witness:
  "DEFAULT_MODEL_ORDER =
     [''mistral-large-latest''] @ ''deepseek/deepseek-chat-v3-0324:free'' # [''gpt-4o-mini'']
   \<and> fst (try_candidate (stub_world mistral_down) ''q'' ''c'' ''h'' ''text''
          ''mistral-large-latest'') = Inl (OtherException ''401'')
   \<and> fst (try_candidate (stub_world mistral_down) ''q'' ''c'' ''h'' ''text''
          ''deepseek/deepseek-chat-v3-0324:free'') = Inr ''from deepseek''
   \<and> fst (get_ai (stub_world mistral_down) ''q'' ''c'' ''h'' ''text'' (Some [])) =
       Inr ''from deepseek''"
proof -
  have order: "DEFAULT_MODEL_ORDER =
     [''mistral-large-latest''] @ ''deepseek/deepseek-chat-v3-0324:free'' # [''gpt-4o-mini'']"
    by (simp add: DEFAULT_MODEL_ORDER_def)
  have fails: "\<forall>m\<in>set [''mistral-large-latest''].
      \<exists>e. fst (try_candidate (stub_world mistral_down) ''q'' ''c'' ''h'' ''text'' m) = Inl e"
    by (simp add: mistral_down_mistral)
  from empty_model_is_unspecified [of "stub_world mistral_down" "''q''" "''c''" "''h''"
      "''text''" "[]" "[''mistral-large-latest'']" "''deepseek/deepseek-chat-v3-0324:free''"
      "[''gpt-4o-mini'']" "''from deepseek''"]
    order fails mistral_down_deepseek
  have "fst (get_ai (stub_world mistral_down) ''q'' ''c'' ''h'' ''text'' (Some [])) =
       Inr ''from deepseek''"
    by blast
  with order show ?thesis
    by (simp add: mistral_down_mistral mistral_down_deepseek)
qed

end
